theory Spec2Isabelle
  imports Main "HOL-Library.Word"
begin

section \<open>The party-planner backend: documents, store and libraries\<close>

text \<open>
  The server (the Express application with its Mongoose models) keeps eight collections.
  A document is a record with the fields of its Mongoose schema plus the \<open>_id\<close> the
  driver gives it. An ObjectId is a 12-byte number, read here as a natural number.
  Strings are ASCII character lists.
\<close>

type_synonym objectId = nat

record user =
  user_id :: objectId
  email :: string
  password :: string
  accessToken :: string

record theme =
  theme_id :: objectId
  theme_name :: string
  theme_image :: string
  theme_type :: "string list"

text \<open>DecorationSchema, FoodSchema, DrinkSchema and ActivitySchema have the same four paths.\<close>

record item =
  item_id :: objectId
  item_name :: string
  item_image :: string
  item_type :: "string list"
  belongs_to_themes :: "string list"

text \<open>A guest's two paths are not required: a body without them leaves them unset.\<close>

record guest =
  guest_id :: objectId
  guestName :: "string option"
  phone :: "int option"

text \<open>
  An array path of a Mongoose schema has the empty array as its default unless the default
  is \<open>undefined\<close>; the schema's \<open>default: null\<close> therefore gives new projects empty arrays.
\<close>

record project =
  project_id :: objectId
  name :: string
  userProject :: objectId
  due_date :: string
  createdAt :: nat
  guestList :: "guest list"
  themes :: "theme list"
  decorations :: "item list"
  food :: "item list"
  drinks :: "item list"
  activities :: "item list"

text \<open>The collections, under the names of their models, in the order the store returns them.\<close>

record store =
  User :: "user list"
  Theme :: "theme list"
  Decoration :: "item list"
  Food :: "item list"
  Drink :: "item list"
  Activity :: "item list"
  Project :: "project list"
  Guest :: "guest list"

datatype error =
    CastError | TypeError | ReferenceError | ValidationError | DuplicateKey | BcryptError

text \<open>
  What the handlers take from the libraries they import, whose code is not part of the
  repository and whose versions it does not fix:
  \<^item> \<open>strictQuery\<close>: Mongoose's option of that name. When it is on (the default of
    Mongoose 6), a filter key that is not a path of the schema is dropped from the filter;
    when it is off (the default of Mongoose 5, 7 and 8) the key is sent to the store, where
    no document of these schemas has such a field.
  \<^item> \<open>castObjectId\<close>: the cast of a request string to an ObjectId, \<open>None\<close> when the
    cast throws.
  \<^item> \<open>hashSync\<close> and \<open>compareSync\<close>: bcrypt's functions of these names.
\<close>

record libs =
  strictQuery :: bool
  castObjectId :: "string \<Rightarrow> objectId option"
  hashSync :: "string \<Rightarrow> string \<Rightarrow> string"
  compareSync :: "string \<Rightarrow> string \<Rightarrow> bool"

subsection \<open>Schemas, filters and model operations\<close>

text \<open>
  A schema lists its paths; a path carries its type and its reader. Paths no handler
  filters on are \<open>Unqueried\<close>.
\<close>

datatype 'd path =
    StringPath "'d \<Rightarrow> string"
  | ObjectIdPath "'d \<Rightarrow> objectId"
  | ArrayPath "'d \<Rightarrow> string list"
  | Unqueried

type_synonym 'd schema = "(string \<times> 'd path) list"

definition UserSchema :: "user schema" where
  "UserSchema =
     [(''_id'', ObjectIdPath user_id), (''email'', StringPath email),
      (''password'', StringPath password), (''accessToken'', StringPath accessToken)]"

definition ThemeSchema :: "theme schema" where
  "ThemeSchema =
     [(''_id'', ObjectIdPath theme_id), (''name'', StringPath theme_name),
      (''image'', StringPath theme_image), (''type'', ArrayPath theme_type)]"

definition ItemSchema :: "item schema" where
  "ItemSchema =
     [(''_id'', ObjectIdPath item_id), (''name'', StringPath item_name),
      (''image'', StringPath item_image), (''type'', ArrayPath item_type),
      (''belongs_to_themes'', ArrayPath belongs_to_themes)]"

definition ProjectSchema :: "project schema" where
  "ProjectSchema =
     [(''_id'', ObjectIdPath project_id), (''name'', StringPath name),
      (''userProject'', ObjectIdPath userProject), (''due_date'', StringPath due_date),
      (''createdAt'', Unqueried), (''guestList'', Unqueried), (''themes'', Unqueried),
      (''decorations'', Unqueried), (''food'', Unqueried), (''drinks'', Unqueried),
      (''activities'', Unqueried)]"

definition GuestSchema :: "guest schema" where
  "GuestSchema =
     [(''_id'', ObjectIdPath guest_id), (''guestName'', Unqueried), (''phone'', Unqueried)]"

text \<open>
  A filter is the object literal the handler passes: keys with the request's values, a
  value being a string or \<open>undefined\<close> (\<open>None\<close>). Casting a condition gives the
  predicate the store evaluates, or throws. An \<open>undefined\<close> value reaches the store as
  \<open>null\<close>, which no field of a stored document is. A string against an array path
  matches the documents whose array holds it.
\<close>

type_synonym filter = "(string \<times> string option) list"

fun castPath :: "libs \<Rightarrow> 'd path \<Rightarrow> string option \<Rightarrow> error + ('d \<Rightarrow> bool)" where
  "castPath L p None = Inr (\<lambda>d. False)"
| "castPath L (StringPath f) (Some s) = Inr (\<lambda>d. f d = s)"
| "castPath L (ObjectIdPath f) (Some s) =
     (case castObjectId L s of
        None \<Rightarrow> Inl CastError
      | Some i \<Rightarrow> Inr (\<lambda>d. f d = i))"
| "castPath L (ArrayPath f) (Some s) = Inr (\<lambda>d. s \<in> set (f d))"
| "castPath L Unqueried (Some s) = Inl CastError"

fun cast :: "libs \<Rightarrow> 'd schema \<Rightarrow> filter \<Rightarrow> error + ('d \<Rightarrow> bool)" where
  "cast L sch [] = Inr (\<lambda>d. True)"
| "cast L sch ((k, v) # flt) =
     (case cast L sch flt of
        Inl e \<Rightarrow> Inl e
      | Inr rest \<Rightarrow>
          (case map_of sch k of
             None \<Rightarrow> Inr (if strictQuery L then rest else (\<lambda>d. False))
           | Some p \<Rightarrow>
               (case castPath L p v of
                  Inl e \<Rightarrow> Inl e
                | Inr c \<Rightarrow> Inr (\<lambda>d. c d \<and> rest d))))"

definition Model_find :: "libs \<Rightarrow> 'd schema \<Rightarrow> filter \<Rightarrow> 'd list \<Rightarrow> error + 'd list" where
  "Model_find L sch flt coll =
     (case cast L sch flt of
        Inl e \<Rightarrow> Inl e
      | Inr P \<Rightarrow> Inr (filter P coll))"

definition Model_findOne :: "libs \<Rightarrow> 'd schema \<Rightarrow> filter \<Rightarrow> 'd list \<Rightarrow> error + 'd option" where
  "Model_findOne L sch flt coll =
     (case cast L sch flt of
        Inl e \<Rightarrow> Inl e
      | Inr P \<Rightarrow> Inr (List.find P coll))"

definition Model_findById :: "libs \<Rightarrow> 'd schema \<Rightarrow> string \<Rightarrow> 'd list \<Rightarrow> error + 'd option" where
  "Model_findById L sch idString coll = Model_findOne L sch [(''_id'', Some idString)] coll"

fun deleteFirst :: "('d \<Rightarrow> bool) \<Rightarrow> 'd list \<Rightarrow> 'd list" where
  "deleteFirst P [] = []"
| "deleteFirst P (d # ds) = (if P d then ds else d # deleteFirst P ds)"

fun updateFirst :: "('d \<Rightarrow> bool) \<Rightarrow> ('d \<Rightarrow> 'd) \<Rightarrow> 'd list \<Rightarrow> 'd list" where
  "updateFirst P upd [] = []"
| "updateFirst P upd (d # ds) = (if P d then upd d # ds else d # updateFirst P upd ds)"

text \<open>The document found (or \<open>null\<close>) and the collection without it.\<close>

definition Model_findOneAndDelete ::
  "libs \<Rightarrow> 'd schema \<Rightarrow> filter \<Rightarrow> 'd list \<Rightarrow> error + ('d option \<times> 'd list)" where
  "Model_findOneAndDelete L sch flt coll =
     (case cast L sch flt of
        Inl e \<Rightarrow> Inl e
      | Inr P \<Rightarrow> Inr (List.find P coll, deleteFirst P coll))"

text \<open>
  \<open>findByIdAndUpdate(id, update)\<close> with no options: the update is applied to the
  document with that \<open>_id\<close>, and the value returned is the document as it was before the
  update (or \<open>null\<close>). The handlers pass \<open>{ _id: string }\<close> as the id, which casts as the
  string does.
\<close>

definition Model_findByIdAndUpdate ::
  "libs \<Rightarrow> 'd schema \<Rightarrow> string \<Rightarrow> ('d \<Rightarrow> 'd) \<Rightarrow> 'd list \<Rightarrow> error + ('d option \<times> 'd list)" where
  "Model_findByIdAndUpdate L sch idString upd coll =
     (case cast L sch [(''_id'', Some idString)] of
        Inl e \<Rightarrow> Inl e
      | Inr P \<Rightarrow> Inr (List.find P coll, updateFirst P upd coll))"

subsection \<open>Strings: lower case, trimming, hexadecimal\<close>

definition toLowerCase :: "string \<Rightarrow> string" where
  "toLowerCase s =
     map (\<lambda>c. case map_of (zip ''ABCDEFGHIJKLMNOPQRSTUVWXYZ'' ''abcdefghijklmnopqrstuvwxyz'') c of
                None \<Rightarrow> c
              | Some l \<Rightarrow> l) s"

definition isSpace :: "char \<Rightarrow> bool" where
  "isSpace c = ((of_char c :: nat) \<in> {9, 10, 11, 12, 13, 32})"

definition trim :: "string \<Rightarrow> string" where
  "trim s = rev (dropWhile isSpace (rev (dropWhile isSpace s)))"

definition hexDigit :: "nat \<Rightarrow> char" where
  "hexDigit n = ''0123456789abcdef'' ! n"

text \<open>\<open>buffer.toString('hex')\<close>: two lower-case digits a byte.\<close>

fun toHex :: "8 word list \<Rightarrow> string" where
  "toHex [] = []"
| "toHex (b # bs) = hexDigit (unat b div 16) # hexDigit (unat b mod 16) # toHex bs"

subsection \<open>Replies\<close>

text \<open>
  The body of a reply is the JSON value the handler passes to \<open>res.json\<close>; documents
  stay typed. \<open>JEndpoints\<close> is the listing of the routes.
\<close>

datatype json =
    JNull
  | JBool bool
  | JNum int
  | JStr string
  | JId objectId
  | JErr error
  | JUser user
  | JTheme theme
  | JThemes "theme list"
  | JItems "item list"
  | JProject project
  | JProjects "project list"
  | JEndpoints
  | JObj "(string \<times> json) list"

datatype reply = Reply (status: nat) (body: json)

text \<open>
  What a handler leaves behind: the reply the client receives (\<open>None\<close> when the handler
  never sends one, so the request hangs) and the store.
\<close>

type_synonym outcome = "reply option \<times> store"

text \<open>
  \<open>res.status(n).json(v)\<close> on a response that has been sent already throws
  (the headers are sent) and the client keeps the first reply.
\<close>

definition send :: "reply \<Rightarrow> reply option \<Rightarrow> reply option" where
  "send r res = (case res of None \<Rightarrow> Some r | Some first \<Rightarrow> Some first)"

definition docOrNull :: "('d \<Rightarrow> json) \<Rightarrow> 'd option \<Rightarrow> json" where
  "docOrNull J d = (case d of None \<Rightarrow> JNull | Some x \<Rightarrow> J x)"

section \<open>The middlewares\<close>

text \<open>
  \<open>authenticateUser\<close>: the \<open>Authorization\<close> header (\<open>None\<close> when the request has
  none) is looked up among the stored tokens; \<open>next\<close> is what the route's handler does.
\<close>

definition authenticateUser :: "libs \<Rightarrow> store \<Rightarrow> string option \<Rightarrow> outcome \<Rightarrow> outcome" where
  "authenticateUser L st authorization next =
     (case Model_findOne L UserSchema [(''accessToken'', authorization)] (User st) of
        Inr (Some user) \<Rightarrow> next
      | Inr None \<Rightarrow>
          (Some (Reply 401 (JObj [(''response'', JStr ''Please log in''), (''success'', JBool False)])), st)
      | Inl error \<Rightarrow>
          (Some (Reply 500 (JObj [(''response'', JErr error), (''success'', JBool False)])), st))"

text \<open>The first middleware: every route runs only while the connection's ready state is 1.\<close>

definition connectionGate :: "nat \<Rightarrow> store \<Rightarrow> outcome \<Rightarrow> outcome" where
  "connectionGate readyState st next =
     (if readyState = 1 then next
      else (Some (Reply 503 (JObj [(''status_code'', JNum 503), (''error'', JStr ''Server unavailable'')])), st))"

section \<open>Accounts\<close>

text \<open>
  Saving a new user: the schema's validators (\<open>required\<close> rejects the empty string, the
  stored password has \<open>minlength\<close> 8), then the unique index on \<open>email\<close>.
\<close>

definition User_save :: "store \<Rightarrow> user \<Rightarrow> error + store" where
  "User_save st u =
     (if email u = [] \<or> length (password u) < 8 then Inl ValidationError
      else if email u \<in> set (map email (User st)) then Inl DuplicateKey
      else Inr (st\<lparr>User := User st @ [u]\<rparr>))"

text \<open>
  \<open>crypto.randomBytes(n)\<close>: the first \<open>n\<close> bytes the generator gives during the request.
  What the generator gives is an input of the model, \<open>entropy i\<close> being its byte \<open>i\<close>.
\<close>

definition randomBytes :: "(nat \<Rightarrow> 8 word) \<Rightarrow> nat \<Rightarrow> 8 word list" where
  "randomBytes entropy n = map entropy [0..<n]"

text \<open>
  \<open>POST /signUp\<close>. The body's \<open>email\<close> and \<open>password\<close> are strings or absent. The salt,
  the generator's bytes and the new \<open>_id\<close> are what the libraries draw during the request;
  the token's default is \<open>crypto.randomBytes(128).toString('hex')\<close>. Reading \<open>.length\<close>
  of an absent password, or calling \<open>.toLowerCase()\<close> on an absent email, throws a
  TypeError.
\<close>

definition signUp_try ::
  "libs \<Rightarrow> store \<Rightarrow> string option \<Rightarrow> string option \<Rightarrow> string \<Rightarrow> (nat \<Rightarrow> 8 word) \<Rightarrow> objectId
     \<Rightarrow> error + outcome" where
  "signUp_try L st b_email b_password salt entropy newId =
     (case b_password of
        None \<Rightarrow> Inl TypeError
      | Some pw \<Rightarrow>
          if length pw < 8 then
            Inr (Some (Reply 400 (JObj [(''response'', JStr ''Password must be minimum 8 characters''),
                                        (''success'', JBool False)])), st)
          else
            (case b_email of
               None \<Rightarrow> Inl TypeError
             | Some em \<Rightarrow>
                 (case User_save st \<lparr>user_id = newId, email = toLowerCase em,
                                     password = hashSync L pw salt,
                                     accessToken = toHex (randomBytes entropy 128)\<rparr> of
                    Inl e \<Rightarrow> Inl e
                  | Inr st' \<Rightarrow>
                      Inr (Some (Reply 201 (JObj
                             [(''response'', JObj [(''email'', JStr (toLowerCase em)),
                                                   (''accessToken'', JStr (toHex (randomBytes entropy 128))),
                                                   (''userId'', JId newId)]),
                              (''success'', JBool True)])), st'))))"

definition signUp_catch :: "libs \<Rightarrow> store \<Rightarrow> string option \<Rightarrow> error \<Rightarrow> outcome" where
  "signUp_catch L st b_email error =
     (case Model_findOne L UserSchema [(''email'', b_email)] (User st) of
        Inl e \<Rightarrow> (None, st)
      | Inr userExists \<Rightarrow>
          if b_email = Some [] then
            (Some (Reply 400 (JObj [(''response'', JStr ''Please enter an email''),
                                    (''error'', JErr error), (''success'', JBool False)])), st)
          else if userExists \<noteq> None then
            (Some (Reply 400 (JObj [(''response'', JStr ''User already exists''),
                                    (''success'', JBool False)])), st)
          else if error = DuplicateKey then
            (Some (Reply 400 (JObj [(''response'', JStr ''User already exists''),
                                    (''error'', JErr error), (''success'', JBool False)])), st)
          else
            (Some (Reply 400 (JObj [(''response'', JErr error), (''success'', JBool False)])), st))"

definition signUp ::
  "libs \<Rightarrow> store \<Rightarrow> string option \<Rightarrow> string option \<Rightarrow> string \<Rightarrow> (nat \<Rightarrow> 8 word) \<Rightarrow> objectId
     \<Rightarrow> outcome" where
  "signUp L st b_email b_password salt entropy newId =
     (case signUp_try L st b_email b_password salt entropy newId of
        Inr out \<Rightarrow> out
      | Inl error \<Rightarrow> signUp_catch L st b_email error)"

text \<open>
  \<open>POST /signIn\<close>. \<open>compareSync\<close> is reached only when a user was found, and throws
  when the body has no password.
\<close>

definition signIn :: "libs \<Rightarrow> store \<Rightarrow> string option \<Rightarrow> string option \<Rightarrow> outcome" where
  "signIn L st b_email b_password =
     (case Model_findOne L UserSchema [(''email'', b_email)] (User st) of
        Inl error \<Rightarrow>
          (Some (Reply 500 (JObj [(''success'', JBool False),
                                  (''response'', JStr ''oops something went wrong''),
                                  (''error'', JErr error)])), st)
      | Inr None \<Rightarrow>
          (Some (Reply 400 (JObj [(''success'', JBool False),
                                  (''response'', JStr ''Credentials did not match'')])), st)
      | Inr (Some user) \<Rightarrow>
          (case b_password of
             None \<Rightarrow>
               (Some (Reply 500 (JObj [(''success'', JBool False),
                                       (''response'', JStr ''oops something went wrong''),
                                       (''error'', JErr BcryptError)])), st)
           | Some pw \<Rightarrow>
               if compareSync L pw (password user) then
                 (Some (Reply 201 (JObj [(''success'', JBool True),
                                         (''response'', JObj [(''userId'', JId (user_id user)),
                                                              (''email'', JStr (email user)),
                                                              (''accessToken'', JStr (accessToken user))])])), st)
               else
                 (Some (Reply 400 (JObj [(''success'', JBool False),
                                         (''response'', JStr ''Credentials did not match'')])), st)))"

text \<open>\<open>DELETE /:userId/admin/delete\<close>: the filter's only key is \<open>userId\<close>.\<close>

definition deleteAccount :: "libs \<Rightarrow> store \<Rightarrow> string option \<Rightarrow> string \<Rightarrow> outcome" where
  "deleteAccount L st authorization userId =
     authenticateUser L st authorization
       (case Model_findOneAndDelete L UserSchema [(''userId'', Some userId)] (User st) of
          Inl error \<Rightarrow>
            (Some (Reply 500 (JObj [(''success'', JBool False), (''response'', JErr error)])), st)
        | Inr (Some user, rest) \<Rightarrow>
            (Some (Reply 200 (JObj [(''success'', JBool True),
                                    (''response'', JStr ''Account removed :('')])),
             st\<lparr>User := rest\<rparr>)
        | Inr (None, rest) \<Rightarrow>
            (Some (Reply 400 (JObj [(''success'', JBool False),
                                    (''response'', JStr ''User not found'')])), st))"

text \<open>\<open>PATCH /:userId/admin/change\<close>: hashing an absent password throws.\<close>

definition changePassword ::
  "libs \<Rightarrow> store \<Rightarrow> string option \<Rightarrow> string \<Rightarrow> string option \<Rightarrow> string \<Rightarrow> outcome" where
  "changePassword L st authorization userId b_password salt =
     authenticateUser L st authorization
       (case Model_findOne L UserSchema [(''userId'', Some userId)] (User st) of
          Inl error \<Rightarrow>
            (Some (Reply 500 (JObj [(''success'', JBool False), (''response'', JErr error)])), st)
        | Inr None \<Rightarrow>
            (Some (Reply 400 (JObj [(''success'', JBool False),
                                    (''response'', JStr ''User not found'')])), st)
        | Inr (Some user) \<Rightarrow>
            (case b_password of
               None \<Rightarrow>
                 (Some (Reply 500 (JObj [(''success'', JBool False),
                                         (''response'', JErr BcryptError)])), st)
             | Some pw \<Rightarrow>
                 (case Model_findByIdAndUpdate L UserSchema userId
                         (\<lambda>u. u\<lparr>password := hashSync L pw salt\<rparr>) (User st) of
                    Inl error \<Rightarrow>
                      (Some (Reply 500 (JObj [(''success'', JBool False),
                                              (''response'', JErr error)])), st)
                  | Inr (updateUser, users') \<Rightarrow>
                      (Some (Reply 200 (JObj [(''success'', JBool True),
                                              (''data'', docOrNull JUser updateUser),
                                              (''response'', JStr ''Password changed'')])),
                       st\<lparr>User := users'\<rparr>))))"

section \<open>The catalog\<close>

text \<open>
  The routes of the five collections are copies of each other. \<open>Model.find\<close> answers
  with an array, which is never falsy: the branch under \<open>if (!typeOf)\<close> is not reachable
  and has no counterpart here.
\<close>

definition getThemes :: "libs \<Rightarrow> store \<Rightarrow> string option \<Rightarrow> outcome" where
  "getThemes L st authorization =
     authenticateUser L st authorization
       (Some (Reply 200 (JObj [(''response'', JThemes (Theme st)), (''success'', JBool True)])), st)"

definition getThemeById :: "libs \<Rightarrow> store \<Rightarrow> string option \<Rightarrow> string \<Rightarrow> outcome" where
  "getThemeById L st authorization idParam =
     authenticateUser L st authorization
       (case Model_findById L ThemeSchema idParam (Theme st) of
          Inl err \<Rightarrow>
            (Some (Reply 400 (JObj [(''success'', JBool False), (''status_code'', JNum 400),
                                    (''error'', JStr ''Invalid id'')])), st)
        | Inr (Some themeId) \<Rightarrow>
            (Some (Reply 200 (JObj [(''success'', JBool True), (''theme'', JTheme themeId)])), st)
        | Inr None \<Rightarrow>
            (Some (Reply 404 (JObj [(''success'', JBool False), (''status_code'', JNum 404),
                                    (''error'', JStr ''Id not found, try another'')])), st))"

definition getThemesByType :: "libs \<Rightarrow> store \<Rightarrow> string option \<Rightarrow> string \<Rightarrow> outcome" where
  "getThemesByType L st authorization typeParam =
     authenticateUser L st authorization
       (case Model_find L ThemeSchema [(''type'', Some typeParam)] (Theme st) of
          Inl error \<Rightarrow>
            (Some (Reply 400 (JObj [(''response'', JStr ''Can't find any activities options for your type right now''),
                                    (''success'', JBool False)])), st)
        | Inr typeOf \<Rightarrow>
            (Some (Reply 200 (JObj [(''response'', JThemes typeOf), (''success'', JBool True)])), st))"

definition getItems :: "libs \<Rightarrow> store \<Rightarrow> string option \<Rightarrow> (store \<Rightarrow> item list) \<Rightarrow> outcome" where
  "getItems L st authorization Model =
     authenticateUser L st authorization
       (Some (Reply 200 (JObj [(''response'', JItems (Model st)), (''success'', JBool True)])), st)"

definition getItemsByType ::
  "libs \<Rightarrow> store \<Rightarrow> string option \<Rightarrow> (store \<Rightarrow> item list) \<Rightarrow> string \<Rightarrow> string \<Rightarrow> outcome" where
  "getItemsByType L st authorization Model message typeParam =
     authenticateUser L st authorization
       (case Model_find L ItemSchema [(''type'', Some typeParam)] (Model st) of
          Inl error \<Rightarrow>
            (Some (Reply 400 (JObj [(''response'', JStr message), (''success'', JBool False)])), st)
        | Inr typeOf \<Rightarrow>
            (Some (Reply 200 (JObj [(''response'', JItems typeOf), (''success'', JBool True)])), st))"

definition getDecorationsByType :: "libs \<Rightarrow> store \<Rightarrow> string option \<Rightarrow> string \<Rightarrow> outcome" where
  "getDecorationsByType L st authorization typeParam =
     getItemsByType L st authorization Decoration
       ''Can't find any decorations options for your type right now'' typeParam"

definition getDrinksByType :: "libs \<Rightarrow> store \<Rightarrow> string option \<Rightarrow> string \<Rightarrow> outcome" where
  "getDrinksByType L st authorization typeParam =
     getItemsByType L st authorization Drink
       ''Can't find any drinks options for your type right now'' typeParam"

definition getFoodByType :: "libs \<Rightarrow> store \<Rightarrow> string option \<Rightarrow> string \<Rightarrow> outcome" where
  "getFoodByType L st authorization typeParam =
     getItemsByType L st authorization Food
       ''Can't find any food options for your type right now'' typeParam"

definition getActivitiesByType :: "libs \<Rightarrow> store \<Rightarrow> string option \<Rightarrow> string \<Rightarrow> outcome" where
  "getActivitiesByType L st authorization typeParam =
     getItemsByType L st authorization Activity
       ''Can't find any Activity options for your type right now'' typeParam"

section \<open>Projects and guests\<close>

text \<open>
  \<open>GET /:userId/project-board/projects\<close>: the query is awaited outside the \<open>try\<close>, so a
  \<open>userId\<close> that does not cast leaves the request without a reply (Express 4 does not
  catch the rejection of an asynchronous handler).
\<close>

definition getProjects :: "libs \<Rightarrow> store \<Rightarrow> string option \<Rightarrow> string \<Rightarrow> outcome" where
  "getProjects L st authorization userId =
     authenticateUser L st authorization
       (case Model_find L ProjectSchema [(''userProject'', Some userId)] (Project st) of
          Inl error \<Rightarrow> (None, st)
        | Inr allProjects \<Rightarrow>
            (Some (Reply 200 (JObj [(''response'', JProjects allProjects),
                                    (''success'', JBool True)])), st))"

text \<open>
  \<open>GET /:userId/project-board/projects/:projectId\<close>: \<open>Project.find\<close> with the keys
  \<open>projectId\<close> and \<open>userProject\<close>. Its array is never falsy, so the 404 branch of the
  source is not reachable.
\<close>

definition getSingleProject :: "libs \<Rightarrow> store \<Rightarrow> string option \<Rightarrow> string \<Rightarrow> string \<Rightarrow> outcome" where
  "getSingleProject L st authorization userId projectId =
     authenticateUser L st authorization
       (case Model_find L ProjectSchema
               [(''projectId'', Some projectId), (''userProject'', Some userId)] (Project st) of
          Inl error \<Rightarrow>
            (Some (Reply 400 (JObj [(''response'', JErr error), (''success'', JBool False)])), st)
        | Inr singleProject \<Rightarrow>
            (Some (Reply 200 (JObj [(''response'', JStr ''Everything is ok''),
                                    (''success'', JBool True),
                                    (''data'', JProjects singleProject)])), st))"

text \<open>
  \<open>POST /:userId/project-board/projects/addProject\<close>. The document's \<open>name\<close> is trimmed
  when it is set; saving validates it (required, 5 to 30 characters) and fails too when
  \<open>userId\<close> did not cast. The new \<open>_id\<close> and the creation time are drawn during the request.
\<close>

definition addProject ::
  "libs \<Rightarrow> store \<Rightarrow> string option \<Rightarrow> string \<Rightarrow> string option \<Rightarrow> string option \<Rightarrow> objectId \<Rightarrow> nat
     \<Rightarrow> outcome" where
  "addProject L st authorization userId b_name b_due_date newId now =
     authenticateUser L st authorization
       (case (b_name, castObjectId L userId) of
          (Some n, Some owner) \<Rightarrow>
            (let newProject =
               \<lparr>project_id = newId, name = trim n, userProject = owner,
                due_date = (case b_due_date of None \<Rightarrow> ''YY-MM-DD'' | Some d \<Rightarrow> d),
                createdAt = now, guestList = [], themes = [], decorations = [], food = [],
                drinks = [], activities = []\<rparr>
             in if length (name newProject) < 5 \<or> 30 < length (name newProject) then
                  (Some (Reply 400 (JObj [(''success'', JBool False),
                                          (''response'', JStr ''Project failed to add''),
                                          (''error'', JErr ValidationError)])), st)
                else
                  (Some (Reply 200 (JObj [(''success'', JBool True),
                                          (''response'', JProject newProject)])),
                   st\<lparr>Project := Project st @ [newProject]\<rparr>))
        | _ \<Rightarrow>
            (Some (Reply 400 (JObj [(''success'', JBool False),
                                    (''response'', JStr ''Project failed to add''),
                                    (''error'', JErr ValidationError)])), st))"

text \<open>
  The update \<open>$set: {name: name, due_date: due_date}\<close>: a key whose value is
  \<open>undefined\<close> is removed from the update (Mongoose 6 and later; the versions before,
  which wrote \<open>null\<close>, have \<open>strictQuery\<close> off, and the route does not reach its
  update then); the schema's setter trims the name.
\<close>

definition set_name_due_date :: "string option \<Rightarrow> string option \<Rightarrow> project \<Rightarrow> project" where
  "set_name_due_date b_name b_due_date p =
     (let p1 = (case b_name of None \<Rightarrow> p | Some n \<Rightarrow> p\<lparr>name := trim n\<rparr>)
      in case b_due_date of None \<Rightarrow> p1 | Some d \<Rightarrow> p1\<lparr>due_date := d\<rparr>)"

text \<open>
  \<open>PATCH /:userId/project-board/projects/:projectId\<close>, registered without
  \<open>authenticateUser\<close>. After the 200 reply the handler reads the undeclared variable
  \<open>guestList\<close>; the ReferenceError lands in \<open>catch\<close>, whose reply comes second.
\<close>

definition patchProject ::
  "libs \<Rightarrow> store \<Rightarrow> string \<Rightarrow> string \<Rightarrow> string option \<Rightarrow> string option \<Rightarrow> outcome" where
  "patchProject L st userId projectId b_name b_due_date =
     (case Model_findOne L ProjectSchema
             [(''userId'', Some userId), (''projectId'', Some projectId)] (Project st) of
        Inl error \<Rightarrow>
          (Some (Reply 401 (JObj [(''response'', JStr ''Invalid credentials''),
                                  (''success'', JBool False), (''error'', JErr error)])), st)
      | Inr None \<Rightarrow>
          (Some (Reply 500 (JObj [(''response'', JStr ''Could not update'')])), st)
      | Inr (Some projectToChange) \<Rightarrow>
          (case Model_findByIdAndUpdate L ProjectSchema projectId
                  (set_name_due_date b_name b_due_date) (Project st) of
             Inl error \<Rightarrow>
               (Some (Reply 401 (JObj [(''response'', JStr ''Invalid credentials''),
                                       (''success'', JBool False), (''error'', JErr error)])), st)
           | Inr (updatedProject, projects') \<Rightarrow>
               (send (Reply 401 (JObj [(''response'', JStr ''Invalid credentials''),
                                       (''success'', JBool False),
                                       (''error'', JErr ReferenceError)]))
                  (Some (Reply 200 (JObj [(''response'', JStr ''Updated''),
                                          (''data'', docOrNull JProject updatedProject)]))),
                st\<lparr>Project := projects'\<rparr>)))"

text \<open>
  \<open>POST /:userId/project-board/projects/:projectId/addGuest\<close>. \<open>new Guest\<close> gets its
  \<open>_id\<close> at construction and trims the name.
\<close>

definition addGuest ::
  "libs \<Rightarrow> store \<Rightarrow> string option \<Rightarrow> string \<Rightarrow> string \<Rightarrow> string option \<Rightarrow> int option \<Rightarrow> objectId
     \<Rightarrow> outcome" where
  "addGuest L st authorization userId projectId b_guestName b_phone newId =
     authenticateUser L st authorization
       (case Model_find L UserSchema [(''userId'', Some userId)] (User st) of
          Inl error \<Rightarrow>
            (Some (Reply 401 (JObj [(''response'', JStr ''Invalid credentials''),
                                    (''success'', JBool False), (''error'', JErr error)])), st)
        | Inr user \<Rightarrow>
            (case Model_findOne L ProjectSchema [(''projectId'', Some projectId)] (Project st) of
               Inl error \<Rightarrow>
                 (Some (Reply 401 (JObj [(''response'', JStr ''Invalid credentials''),
                                         (''success'', JBool False), (''error'', JErr error)])), st)
             | Inr None \<Rightarrow>
                 (Some (Reply 500 (JObj [(''response'', JStr ''Could not update'')])), st)
             | Inr (Some projectToChange) \<Rightarrow>
                 (case Model_findByIdAndUpdate L ProjectSchema projectId
                         (\<lambda>p. p\<lparr>guestList := guestList p @
                                 [\<lparr>guest_id = newId, guestName = map_option trim b_guestName,
                                   phone = b_phone\<rparr>]\<rparr>)
                         (Project st) of
                    Inl error \<Rightarrow>
                      (Some (Reply 401 (JObj [(''response'', JStr ''Invalid credentials''),
                                              (''success'', JBool False),
                                              (''error'', JErr error)])), st)
                  | Inr (addedGuest, projects') \<Rightarrow>
                      (Some (Reply 200 (JObj [(''response'', JStr ''Guest added''),
                                              (''data'', docOrNull JProject addedGuest)])),
                       st\<lparr>Project := projects'\<rparr>))))"

text \<open>
  \<open>DELETE /:userId/project-board/projects/:projectId/delete/:guestId\<close>: the handler
  deletes from the collection of the \<open>Guest\<close> model with the key \<open>projectId\<close>, and does
  not use \<open>guestId\<close>. \<open>User.find\<close> gives an array, which is truthy.
\<close>

definition deleteGuest ::
  "libs \<Rightarrow> store \<Rightarrow> string option \<Rightarrow> string \<Rightarrow> string \<Rightarrow> string \<Rightarrow> outcome" where
  "deleteGuest L st authorization userId projectId guestId =
     authenticateUser L st authorization
       (case Model_find L UserSchema [(''userId'', Some userId)] (User st) of
          Inl error \<Rightarrow>
            (Some (Reply 401 (JObj [(''response'', JStr ''Invalid credentials''),
                                    (''success'', JBool False)])), st)
        | Inr user \<Rightarrow>
            (case Model_findOneAndDelete L GuestSchema [(''projectId'', Some projectId)] (Guest st) of
               Inl error \<Rightarrow>
                 (Some (Reply 401 (JObj [(''response'', JStr ''Invalid credentials''),
                                         (''success'', JBool False)])), st)
             | Inr (Some guestToDelete, rest) \<Rightarrow>
                 (Some (Reply 200 (JObj [(''response'', JStr ''Guest has been deleted''),
                                         (''success'', JBool True)])), st\<lparr>Guest := rest\<rparr>)
             | Inr (None, rest) \<Rightarrow>
                 (Some (Reply 404 (JObj [(''response'', JStr ''Guest not found''),
                                         (''success'', JBool False)])), st)))"

text \<open>\<open>DELETE /:userId/project-board/projects/delete/:projectId\<close>.\<close>

definition deleteProject :: "libs \<Rightarrow> store \<Rightarrow> string option \<Rightarrow> string \<Rightarrow> string \<Rightarrow> outcome" where
  "deleteProject L st authorization userId projectId =
     authenticateUser L st authorization
       (case Model_find L UserSchema [(''userId'', Some userId)] (User st) of
          Inl error \<Rightarrow>
            (Some (Reply 401 (JObj [(''response'', JStr ''Invalid credentials''),
                                    (''success'', JBool False)])), st)
        | Inr user \<Rightarrow>
            (case Model_findOneAndDelete L ProjectSchema [(''projectId'', Some projectId)]
                    (Project st) of
               Inl error \<Rightarrow>
                 (Some (Reply 401 (JObj [(''response'', JStr ''Invalid credentials''),
                                         (''success'', JBool False)])), st)
             | Inr (Some projectToDelete, rest) \<Rightarrow>
                 (Some (Reply 200 (JObj [(''response'', JStr ''Project has been deleted''),
                                         (''success'', JBool True)])), st\<lparr>Project := rest\<rparr>)
             | Inr (None, rest) \<Rightarrow>
                 (Some (Reply 404 (JObj [(''response'', JStr ''Project not found''),
                                         (''success'', JBool False)])), st)))"

text \<open>\<open>GET /:userId/project-board\<close>: the \<open>if\<close> has no \<open>else\<close>.\<close>

definition getProjectBoard :: "libs \<Rightarrow> store \<Rightarrow> string option \<Rightarrow> string \<Rightarrow> outcome" where
  "getProjectBoard L st authorization userId =
     authenticateUser L st authorization
       (case Model_findOne L UserSchema [(''userId'', Some userId)] (User st) of
          Inl error \<Rightarrow>
            (Some (Reply 401 (JObj [(''response'', JStr ''Invalid credentials''),
                                    (''success'', JBool False)])), st)
        | Inr (Some user) \<Rightarrow>
            (Some (Reply 200 (JObj [(''response'', JStr ''Welcome back''),
                                    (''success'', JBool True)])), st)
        | Inr None \<Rightarrow> (None, st))"

section \<open>The application\<close>

text \<open>
  A request names its route and carries the \<open>Authorization\<close> header, the path
  parameters, the body's fields and, where the handler draws any, the values drawn.
\<close>

datatype request =
    GetRoot
  | SignUp "string option" "string option" string "nat \<Rightarrow> 8 word" objectId
  | SignIn "string option" "string option"
  | DeleteAccount "string option" string
  | ChangePassword "string option" string "string option" string
  | GetThemes "string option"
  | GetThemeById "string option" string
  | GetThemesByType "string option" string
  | GetDecorations "string option"
  | GetDecorationsByType "string option" string
  | GetDrinks "string option"
  | GetDrinksByType "string option" string
  | GetFood "string option"
  | GetFoodByType "string option" string
  | GetActivities "string option"
  | GetActivitiesByType "string option" string
  | GetProjects "string option" string
  | GetSingleProject "string option" string string
  | AddProject "string option" string "string option" "string option" objectId nat
  | PatchProject "string option" string string "string option" "string option"
  | AddGuest "string option" string string "string option" "int option" objectId
  | DeleteGuest "string option" string string string
  | DeleteProject "string option" string string
  | GetProjectBoard "string option" string

fun route :: "libs \<Rightarrow> store \<Rightarrow> request \<Rightarrow> outcome" where
  "route L st GetRoot = (Some (Reply 200 JEndpoints), st)"
| "route L st (SignUp b_email b_password salt entropy newId) =
     signUp L st b_email b_password salt entropy newId"
| "route L st (SignIn b_email b_password) = signIn L st b_email b_password"
| "route L st (DeleteAccount authorization userId) = deleteAccount L st authorization userId"
| "route L st (ChangePassword authorization userId b_password salt) =
     changePassword L st authorization userId b_password salt"
| "route L st (GetThemes authorization) = getThemes L st authorization"
| "route L st (GetThemeById authorization idParam) = getThemeById L st authorization idParam"
| "route L st (GetThemesByType authorization typeParam) =
     getThemesByType L st authorization typeParam"
| "route L st (GetDecorations authorization) = getItems L st authorization Decoration"
| "route L st (GetDecorationsByType authorization typeParam) =
     getDecorationsByType L st authorization typeParam"
| "route L st (GetDrinks authorization) = getItems L st authorization Drink"
| "route L st (GetDrinksByType authorization typeParam) =
     getDrinksByType L st authorization typeParam"
| "route L st (GetFood authorization) = getItems L st authorization Food"
| "route L st (GetFoodByType authorization typeParam) =
     getFoodByType L st authorization typeParam"
| "route L st (GetActivities authorization) = getItems L st authorization Activity"
| "route L st (GetActivitiesByType authorization typeParam) =
     getActivitiesByType L st authorization typeParam"
| "route L st (GetProjects authorization userId) = getProjects L st authorization userId"
| "route L st (GetSingleProject authorization userId projectId) =
     getSingleProject L st authorization userId projectId"
| "route L st (AddProject authorization userId b_name b_due_date newId now) =
     addProject L st authorization userId b_name b_due_date newId now"
| "route L st (PatchProject authorization userId projectId b_name b_due_date) =
     patchProject L st userId projectId b_name b_due_date"
| "route L st (AddGuest authorization userId projectId b_guestName b_phone newId) =
     addGuest L st authorization userId projectId b_guestName b_phone newId"
| "route L st (DeleteGuest authorization userId projectId guestId) =
     deleteGuest L st authorization userId projectId guestId"
| "route L st (DeleteProject authorization userId projectId) =
     deleteProject L st authorization userId projectId"
| "route L st (GetProjectBoard authorization userId) = getProjectBoard L st authorization userId"

definition app :: "libs \<Rightarrow> nat \<Rightarrow> store \<Rightarrow> request \<Rightarrow> outcome" where
  "app L readyState st req = connectionGate readyState st (route L st req)"

text \<open>A run of the server: the requests one after the other, each on the store the last left.\<close>

fun run :: "libs \<Rightarrow> store \<Rightarrow> request list \<Rightarrow> store" where
  "run L st [] = st"
| "run L st (req # reqs) = run L (snd (app L 1 st req)) reqs"

text \<open>The byte strings the sign-ups of a run draw for their tokens.\<close>

fun drawn :: "request list \<Rightarrow> 8 word list list" where
  "drawn [] = []"
| "drawn (SignUp b_email b_password salt entropy newId # reqs) =
     randomBytes entropy 128 # drawn reqs"
| "drawn (req # reqs) = drawn reqs"

text \<open>The envelope: a JSON object with a boolean \<open>success\<close> and a \<open>response\<close>.\<close>

fun envelope :: "json \<Rightarrow> bool" where
  "envelope (JObj members) =
     (case map_of members ''success'' of
        Some (JBool b) \<Rightarrow> map_of members ''response'' \<noteq> None
      | _ \<Rightarrow> False)"
| "envelope _ = False"

text \<open>
  The routes registered with \<open>authenticateUser\<close>, each with the header the middleware
  reads; sign-up, sign-in, the listing of the routes and the field update are registered
  without it.
\<close>

fun gated :: "request \<Rightarrow> string option option" where
  "gated GetRoot = None"
| "gated (SignUp b_email b_password salt entropy newId) = None"
| "gated (SignIn b_email b_password) = None"
| "gated (PatchProject authorization userId projectId b_name b_due_date) = None"
| "gated (DeleteAccount authorization userId) = Some authorization"
| "gated (ChangePassword authorization userId b_password salt) = Some authorization"
| "gated (GetThemes authorization) = Some authorization"
| "gated (GetThemeById authorization idParam) = Some authorization"
| "gated (GetThemesByType authorization typeParam) = Some authorization"
| "gated (GetDecorations authorization) = Some authorization"
| "gated (GetDecorationsByType authorization typeParam) = Some authorization"
| "gated (GetDrinks authorization) = Some authorization"
| "gated (GetDrinksByType authorization typeParam) = Some authorization"
| "gated (GetFood authorization) = Some authorization"
| "gated (GetFoodByType authorization typeParam) = Some authorization"
| "gated (GetActivities authorization) = Some authorization"
| "gated (GetActivitiesByType authorization typeParam) = Some authorization"
| "gated (GetProjects authorization userId) = Some authorization"
| "gated (GetSingleProject authorization userId projectId) = Some authorization"
| "gated (AddProject authorization userId b_name b_due_date newId now) = Some authorization"
| "gated (AddGuest authorization userId projectId b_guestName b_phone newId) = Some authorization"
| "gated (DeleteGuest authorization userId projectId guestId) = Some authorization"
| "gated (DeleteProject authorization userId projectId) = Some authorization"
| "gated (GetProjectBoard authorization userId) = Some authorization"

text \<open>Whether a reply says \<open>success: true\<close>.\<close>

fun succeeded :: "reply option \<Rightarrow> bool" where
  "succeeded (Some (Reply code (JObj members))) = (map_of members ''success'' = Some (JBool True))"
| "succeeded _ = False"

section \<open>A worked scenario\<close>

text \<open>
  Concrete libraries for the examples: Mongoose with \<open>strictQuery\<close> on, the driver's cast
  of a string to an ObjectId (24 hexadecimal digits, or any 12 characters, taken as the 12
  bytes), and a transparent stand-in for bcrypt (the hash is the salt, 29 characters,
  followed by the password).
\<close>

fun hexValue :: "char \<Rightarrow> nat option" where
  "hexValue c =
     (let n = (of_char c :: nat)
      in if 48 \<le> n \<and> n \<le> 57 then Some (n - 48)
         else if 97 \<le> n \<and> n \<le> 102 then Some (n - 87)
         else if 65 \<le> n \<and> n \<le> 70 then Some (n - 55)
         else None)"

fun parseHex :: "nat \<Rightarrow> string \<Rightarrow> nat option" where
  "parseHex acc [] = Some acc"
| "parseHex acc (c # cs) =
     (case hexValue c of None \<Rightarrow> None | Some v \<Rightarrow> parseHex (16 * acc + v) cs)"

definition hexObjectId :: "string \<Rightarrow> objectId option" where
  "hexObjectId s =
     (if length s = 12 then Some (foldl (\<lambda>acc c. 256 * acc + of_char c) 0 s)
      else if length s = 24 then parseHex 0 s
      else None)"

definition mongoose6 :: libs where
  "mongoose6 =
     \<lparr>strictQuery = True, castObjectId = hexObjectId,
      hashSync = (\<lambda>pw salt. salt @ pw),
      compareSync = (\<lambda>pw hash. drop 29 hash = pw)\<rparr>"

definition emptyStore :: store where
  "emptyStore =
     \<lparr>User = [], Theme = [], Decoration = [], Food = [], Drink = [], Activity = [],
      Project = [], Guest = []\<rparr>"

definition aliceEntropy :: "nat \<Rightarrow> 8 word" where
  "aliceEntropy = (\<lambda>i. 161)"

definition bobEntropy :: "nat \<Rightarrow> 8 word" where
  "bobEntropy = (\<lambda>i. 178)"

definition aliceBytes :: "8 word list" where
  "aliceBytes = randomBytes aliceEntropy 128"

definition bobBytes :: "8 word list" where
  "bobBytes = randomBytes bobEntropy 128"

definition aliceToken :: string where
  "aliceToken = toHex aliceBytes"

definition bobToken :: string where
  "bobToken = toHex bobBytes"

definition aliceId :: string where
  "aliceId = ''0000000000000000000000a1''"

definition bobId :: string where
  "bobId = ''0000000000000000000000b2''"

definition bashId :: string where
  "bashId = ''00000000000000000000c001''"

definition otherId :: string where
  "otherId = ''00000000000000000000c002''"

definition samId :: string where
  "samId = ''00000000000000000000d001''"

definition alice :: user where
  "alice = \<lparr>user_id = 161, email = ''a@b.com'',
            password = ''$2b$10$abcdefghijklmnopqrstuvpassword1'', accessToken = aliceToken\<rparr>"

definition bob :: user where
  "bob = \<lparr>user_id = 178, email = ''bob@b.com'',
          password = ''$2b$10$ABCDEFGHIJKLMNOPQRSTUVpassword2'', accessToken = bobToken\<rparr>"

definition bash :: project where
  "bash = \<lparr>project_id = 49153, name = ''Birthday Bash'', userProject = 161,
           due_date = ''2024-05-01'', createdAt = 1700000000, guestList = [], themes = [],
           decorations = [], food = [], drinks = [], activities = []\<rparr>"

definition sam :: guest where
  "sam = \<lparr>guest_id = 53249, guestName = Some ''Sam'', phone = Some 5551234\<rparr>"

text \<open>
  Alice signs up and creates the project of the spec's scenario; Bob signs up as well.
\<close>

definition scenario :: "request list" where
  "scenario =
     [SignUp (Some ''a@b.com'') (Some ''password1'') ''$2b$10$abcdefghijklmnopqrstuv'' aliceEntropy 161,
      SignUp (Some ''bob@b.com'') (Some ''password2'') ''$2b$10$ABCDEFGHIJKLMNOPQRSTUV'' bobEntropy 178,
      AddProject (Some aliceToken) aliceId (Some ''Birthday Bash'') (Some ''2024-05-01'')
        49153 1700000000]"

definition partyStore :: store where
  "partyStore = emptyStore\<lparr>User := [alice, bob], Project := [bash]\<rparr>"

text \<open>
  Eve signs up after Alice while the generator gives her request the bytes it gave
  Alice's.
\<close>

definition eve :: user where
  "eve = \<lparr>user_id = 194, email = ''eve@b.com'',
          password = ''$2b$10$0123456789012345678901password3'', accessToken = aliceToken\<rparr>"

definition collision :: "request list" where
  "collision =
     [SignUp (Some ''a@b.com'') (Some ''password1'') ''$2b$10$abcdefghijklmnopqrstuv'' aliceEntropy 161,
      SignUp (Some ''eve@b.com'') (Some ''password3'') ''$2b$10$0123456789012345678901'' aliceEntropy 194]"

text \<open>The same store with a small catalog.\<close>

definition pirates :: theme where
  "pirates = \<lparr>theme_id = 57345, theme_name = ''Pirates'', theme_image = ''pirates.png'',
              theme_type = [''kids'', ''grownup'']\<rparr>"

definition lemonade :: item where
  "lemonade = \<lparr>item_id = 57346, item_name = ''Lemonade'', item_image = ''lemonade.png'',
               item_type = [''kids''], belongs_to_themes = [''Pirates'']\<rparr>"

definition catalogStore :: store where
  "catalogStore =
     partyStore\<lparr>Theme := [pirates], Decoration := [lemonade], Food := [lemonade],
                 Drink := [lemonade], Activity := [lemonade]\<rparr>"

section \<open>What the casts of the handlers' filters are\<close>

text \<open>
  Each filter the handlers build, cast against its schema. A key that is not a path of the
  schema (\<open>userId\<close>, \<open>projectId\<close>) leaves a condition that holds of every document when
  \<open>strictQuery\<close> is on and of none when it is off.
\<close>

lemma cast_accessToken:
  "cast L UserSchema [(''accessToken'', a)] = Inr (\<lambda>u. Some (accessToken u) = a)"
  by (cases a) (auto simp: UserSchema_def)

lemma cast_email:
  "cast L UserSchema [(''email'', a)] = Inr (\<lambda>u. Some (email u) = a)"
  by (cases a) (auto simp: UserSchema_def)

lemma cast_user_userId:
  "cast L UserSchema [(''userId'', Some x)] = Inr (\<lambda>u. strictQuery L)"
  by (auto simp: UserSchema_def)

lemma cast_project_projectId:
  "cast L ProjectSchema [(''projectId'', Some x)] = Inr (\<lambda>p. strictQuery L)"
  by (auto simp: ProjectSchema_def)

lemma cast_project_userId_projectId:
  "cast L ProjectSchema [(''userId'', Some x), (''projectId'', Some y)] = Inr (\<lambda>p. strictQuery L)"
  by (auto simp: ProjectSchema_def)

lemma cast_guest_projectId:
  "cast L GuestSchema [(''projectId'', Some x)] = Inr (\<lambda>g. strictQuery L)"
  by (auto simp: GuestSchema_def)

lemma cast_project_id:
  "cast L ProjectSchema [(''_id'', Some x)] =
     (case castObjectId L x of None \<Rightarrow> Inl CastError | Some i \<Rightarrow> Inr (\<lambda>p. project_id p = i))"
  by (auto simp: ProjectSchema_def split: option.splits)

lemma cast_user_id:
  "cast L UserSchema [(''_id'', Some x)] =
     (case castObjectId L x of None \<Rightarrow> Inl CastError | Some i \<Rightarrow> Inr (\<lambda>p. user_id p = i))"
  by (auto simp: UserSchema_def split: option.splits)

lemma cast_project_userProject:
  "cast L ProjectSchema [(''userProject'', Some x)] =
     (case castObjectId L x of None \<Rightarrow> Inl CastError | Some i \<Rightarrow> Inr (\<lambda>p. userProject p = i))"
  by (auto simp: ProjectSchema_def split: option.splits)

lemma cast_project_projectId_userProject:
  "cast L ProjectSchema [(''projectId'', Some y), (''userProject'', Some x)] =
     (case castObjectId L x of None \<Rightarrow> Inl CastError
      | Some i \<Rightarrow> Inr (\<lambda>p. strictQuery L \<and> userProject p = i))"
  by (auto simp: ProjectSchema_def split: option.splits)

lemma cast_theme_type:
  "cast L ThemeSchema [(''type'', Some t)] = Inr (\<lambda>d. t \<in> set (theme_type d))"
  by (auto simp: ThemeSchema_def)

lemma cast_item_type:
  "cast L ItemSchema [(''type'', Some t)] = Inr (\<lambda>d. t \<in> set (item_type d))"
  by (auto simp: ItemSchema_def)

lemma authenticateUser_eq:
  "authenticateUser L st a next =
     (if a \<in> Some ` accessToken ` set (User st) then next
      else (Some (Reply 401 (JObj [(''response'', JStr ''Please log in''), (''success'', JBool False)])), st))"
proof (cases "List.find (\<lambda>u. Some (accessToken u) = a) (User st)")
  case None
  then have "a \<notin> Some ` accessToken ` set (User st)"
    by (auto simp: find_None_iff)
  with None show ?thesis
    by (simp add: authenticateUser_def Model_findOne_def cast_accessToken del: cast.simps)
next
  case (Some u)
  then have "a \<in> Some ` accessToken ` set (User st)"
    by (auto simp: find_Some_iff)
  with Some show ?thesis
    by (simp add: authenticateUser_def Model_findOne_def cast_accessToken del: cast.simps)
qed

lemma find_True: "List.find (\<lambda>d. True) xs = (case xs of [] \<Rightarrow> None | x # _ \<Rightarrow> Some x)"
  by (cases xs) simp_all

lemma find_False: "List.find (\<lambda>d. False) xs = None"
  by (induction xs) simp_all

lemma deleteFirst_True: "deleteFirst (\<lambda>d. True) xs = tl xs"
  by (cases xs) simp_all

lemma deleteFirst_False: "deleteFirst (\<lambda>d. False) xs = xs"
  by (induction xs) simp_all

subsection \<open>The tokens of the scenario\<close>

lemma length_toHex: "length (toHex bs) = 2 * length bs"
  by (induction bs) simp_all

lemma length_randomBytes: "length (randomBytes entropy n) = n"
  by (simp add: randomBytes_def)

lemma randomBytes_const: "randomBytes (\<lambda>i. b) n = replicate n b"
  by (simp add: randomBytes_def map_replicate_const)

lemma scenario_bytes: "aliceBytes = replicate 128 161" "bobBytes = replicate 128 178"
  by (simp_all add: aliceBytes_def bobBytes_def aliceEntropy_def bobEntropy_def randomBytes_const)

lemma aliceToken_length: "length aliceToken = 256"
  by (simp add: aliceToken_def aliceBytes_def length_toHex length_randomBytes)

lemma bobToken_length: "length bobToken = 256"
  by (simp add: bobToken_def bobBytes_def length_toHex length_randomBytes)

lemma hd_toHex: "bs \<noteq> [] \<Longrightarrow> hd (toHex bs) = hexDigit (unat (hd bs) div 16)"
  by (cases bs) simp_all

lemma aliceToken_neq_bobToken: "aliceToken \<noteq> bobToken"
proof -
  have "hd aliceToken = CHR ''a''"
    by (simp add: aliceToken_def scenario_bytes hd_toHex hexDigit_def)
  moreover have "hd bobToken = CHR ''b''"
    by (simp add: bobToken_def scenario_bytes hd_toHex hexDigit_def)
  ultimately show ?thesis by auto
qed

section \<open>Account deletion\<close>

text \<open>
  Claim C10. For an authenticated account-delete request the document deleted does not
  depend on the \<open>userId\<close> of the path: two requests that differ only in \<open>userId\<close> have the
  same outcome on the same store, whatever the libraries. With \<open>strictQuery\<close> on, the
  document deleted is the first of the collection (the first match of a lookup without
  conditions), which need not be the account the path names.
\<close>

theorem deleteAccount_ignores_userId:
  "deleteAccount L st authorization userId = deleteAccount L st authorization userId' \<and>
   (strictQuery L \<and> authorization \<in> Some ` accessToken ` set (User st) \<longrightarrow>
      deleteAccount L st authorization userId =
        (Some (Reply 200 (JObj [(''success'', JBool True), (''response'', JStr ''Account removed :('')])),
         st\<lparr>User := tl (User st)\<rparr>))"
proof -
  have indep: "deleteAccount L st authorization userId = deleteAccount L st authorization userId'"
    by (simp add: deleteAccount_def Model_findOneAndDelete_def cast_user_userId del: cast.simps)
  have first: "deleteAccount L st authorization userId =
        (Some (Reply 200 (JObj [(''success'', JBool True), (''response'', JStr ''Account removed :('')])),
         st\<lparr>User := tl (User st)\<rparr>)"
    if "strictQuery L" and "authorization \<in> Some ` accessToken ` set (User st)"
  proof -
    from that(2) obtain u us where "User st = u # us"
      by (cases "User st") auto
    with that show ?thesis
      by (simp add: deleteAccount_def authenticateUser_eq Model_findOneAndDelete_def
            cast_user_userId del: cast.simps)
  qed
  from indep first show ?thesis by blast
qed

text \<open>
  Bob, authenticated, names his own account in the path; the account deleted is Alice's,
  the first of the collection, and the same happens when he names hers.
\<close>

theorem deleteAccount_ignores_userId_witness:
  "deleteAccount mongoose6 partyStore (Some bobToken) bobId =
     deleteAccount mongoose6 partyStore (Some bobToken) aliceId \<and>
   snd (deleteAccount mongoose6 partyStore (Some bobToken) bobId) = partyStore\<lparr>User := [bob]\<rparr>"
proof -
  have s: "strictQuery mongoose6"
    by (simp add: mongoose6_def)
  have a: "Some bobToken \<in> Some ` accessToken ` set (User partyStore)"
    by (simp add: partyStore_def bob_def)
  have u: "tl (User partyStore) = [bob]"
    by (simp add: partyStore_def)
  from deleteAccount_ignores_userId [of mongoose6 partyStore "Some bobToken" bobId aliceId] s a u
  have same: "deleteAccount mongoose6 partyStore (Some bobToken) bobId =
     deleteAccount mongoose6 partyStore (Some bobToken) aliceId"
    and gone: "snd (deleteAccount mongoose6 partyStore (Some bobToken) bobId) = partyStore\<lparr>User := [bob]\<rparr>"
    by (metis, metis snd_conv)
  show ?thesis
    by (rule conjI [OF same gone])
qed

section \<open>The scenario's store\<close>

text \<open>The store of the examples is the one the scenario's requests leave.\<close>

lemma scenario_reaches_partyStore: "run mongoose6 emptyStore scenario = partyStore"
  by (simp add: scenario_def app_def connectionGate_def signUp_def signUp_try_def User_save_def
        addProject_def authenticateUser_eq emptyStore_def partyStore_def alice_def bob_def bash_def
        mongoose6_def hexObjectId_def aliceId_def toLowerCase_def trim_def isSpace_def
        aliceToken_def bobToken_def aliceBytes_def bobBytes_def Let_def)

lemma partyStore_simps:
  "User partyStore = [alice, bob]" "Project partyStore = [bash]" "Guest partyStore = []"
  by (simp_all add: partyStore_def emptyStore_def)

lemma scenario_ids:
  "castObjectId mongoose6 aliceId = Some 161" "castObjectId mongoose6 bobId = Some 178"
  "castObjectId mongoose6 bashId = Some 49153" "castObjectId mongoose6 otherId = Some 49154"
  "castObjectId mongoose6 samId = Some 53249" "strictQuery mongoose6"
  by (simp_all add: mongoose6_def hexObjectId_def aliceId_def bobId_def bashId_def otherId_def samId_def)

lemma length_neq: "length xs \<noteq> length ys \<Longrightarrow> xs \<noteq> ys \<and> ys \<noteq> xs"
  by auto

lemma scenario_tokens:
  "accessToken alice = aliceToken" "accessToken bob = bobToken"
  "aliceToken \<noteq> ''no-such-token''" "bobToken \<noteq> ''no-such-token''"
  "''no-such-token'' \<noteq> aliceToken" "''no-such-token'' \<noteq> bobToken"
  using length_neq [of aliceToken "''no-such-token''"] length_neq [of bobToken "''no-such-token''"]
  by (simp_all add: alice_def bob_def aliceToken_length bobToken_length)

section \<open>Fetching one project\<close>

text \<open>
  With a valid token and a \<open>userId\<close> that casts, the reply is always the 200 one: its
  \<open>data\<close> are the projects of that owner when \<open>strictQuery\<close> is on and the empty
  array when it is off, whatever \<open>projectId\<close> is.
\<close>

lemma getSingleProject_always_ok:
  assumes "authorization \<in> Some ` accessToken ` set (User st)"
    and "castObjectId L userId = Some owner"
  shows "getSingleProject L st authorization userId projectId =
     (Some (Reply 200 (JObj [(''response'', JStr ''Everything is ok''), (''success'', JBool True),
         (''data'', JProjects (filter (\<lambda>p. strictQuery L \<and> userProject p = owner) (Project st)))])), st)"
  using assms
  by (simp add: getSingleProject_def authenticateUser_eq Model_find_def
        cast_project_projectId_userProject del: cast.simps)

text \<open>
  Claim C1. Fetching a project that does not exist, or that another user owns, is to
  answer not-found. The handler does not: Alice asks for an id that names no project and
  gets the 200 reply, with her project Birthday Bash as \<open>data\<close>; Bob, with his own
  token and Alice's id in the path, gets her project too.
\<close>

theorem getSingleProject_unknown_id_replies_ok:
  "castObjectId mongoose6 otherId = Some 49154 \<and>
   49154 \<notin> set (map project_id (Project partyStore)) \<and>
   getSingleProject mongoose6 partyStore (Some aliceToken) aliceId otherId =
     (Some (Reply 200 (JObj [(''response'', JStr ''Everything is ok''), (''success'', JBool True),
                             (''data'', JProjects [bash])])), partyStore) \<and>
   userProject bash = user_id alice \<and>
   getSingleProject mongoose6 partyStore (Some bobToken) aliceId bashId =
     (Some (Reply 200 (JObj [(''response'', JStr ''Everything is ok''), (''success'', JBool True),
                             (''data'', JProjects [bash])])), partyStore)"
  by (simp add: getSingleProject_always_ok [where owner = 161] partyStore_simps scenario_ids
        scenario_tokens bash_def alice_def)

section \<open>The guest list\<close>

text \<open>The guest-delete handler never changes a project, whatever the libraries.\<close>

lemma deleteGuest_keeps_projects:
  "Project (snd (deleteGuest L st authorization userId projectId guestId)) = Project st"
  by (simp add: deleteGuest_def authenticateUser_eq Model_find_def Model_findOneAndDelete_def
        cast_user_userId cast_guest_projectId split: option.splits del: cast.simps)

text \<open>
  Claim C2. Appending a guest and removing it by its identifier is to give back the guest
  list as it was. On the scenario's store the append puts Sam on the list of Birthday
  Bash, which was empty; the delete request with Sam's id then answers 404 and the list
  still holds Sam.
\<close>

theorem addGuest_then_deleteGuest_keeps_guest:
  "snd (addGuest mongoose6 partyStore (Some aliceToken) aliceId bashId (Some ''Sam'') (Some 5551234) 53249)
     = partyStore\<lparr>Project := [bash\<lparr>guestList := [sam]\<rparr>]\<rparr> \<and>
   guestList bash = [] \<and>
   castObjectId mongoose6 samId = Some (guest_id sam) \<and>
   deleteGuest mongoose6 (partyStore\<lparr>Project := [bash\<lparr>guestList := [sam]\<rparr>]\<rparr>)
       (Some aliceToken) aliceId bashId samId
     = (Some (Reply 404 (JObj [(''response'', JStr ''Guest not found''), (''success'', JBool False)])),
        partyStore\<lparr>Project := [bash\<lparr>guestList := [sam]\<rparr>]\<rparr>)"
  by (simp add: addGuest_def deleteGuest_def authenticateUser_eq Model_find_def Model_findOne_def
        Model_findOneAndDelete_def Model_findByIdAndUpdate_def cast_user_userId cast_guest_projectId
        cast_project_projectId cast_project_id partyStore_simps scenario_ids scenario_tokens
        bash_def sam_def trim_def isSpace_def del: cast.simps)

text \<open>
  Whenever the add-guest route answers with a project, that project is a document of the
  store as it was before the request.
\<close>

lemma find_in_set: "List.find P xs = Some x \<Longrightarrow> x \<in> set xs"
  by (induction xs) (auto split: if_splits)

lemma addGuest_data_is_project_before:
  assumes "fst (addGuest L st authorization userId projectId b_guestName b_phone newId) =
             Some (Reply 200 (JObj [(''response'', JStr ''Guest added''), (''data'', JProject q)]))"
  shows "q \<in> set (Project st)"
  using assms
  by (auto simp: addGuest_def authenticateUser_eq Model_find_def Model_findOne_def
        Model_findByIdAndUpdate_def cast_user_userId cast_project_projectId cast_project_id
        docOrNull_def dest: find_in_set split: if_splits option.splits simp del: cast.simps)

text \<open>
  Claim C5. Add-guest is to append the guest and to return the updated project. The
  guest is appended, and the \<open>data\<close> of the reply is the project as it was before: its
  guest list is empty.
\<close>

theorem addGuest_replies_project_before_update:
  "addGuest mongoose6 partyStore (Some aliceToken) aliceId bashId (Some ''Sam'') (Some 5551234) 53249
     = (Some (Reply 200 (JObj [(''response'', JStr ''Guest added''), (''data'', JProject bash)])),
        partyStore\<lparr>Project := [bash\<lparr>guestList := [sam]\<rparr>]\<rparr>) \<and>
   guestList bash = []"
  by (simp add: addGuest_def authenticateUser_eq Model_find_def Model_findOne_def
        Model_findByIdAndUpdate_def cast_user_userId
        cast_project_projectId cast_project_id partyStore_simps scenario_ids scenario_tokens
        docOrNull_def bash_def sam_def trim_def isSpace_def del: cast.simps)

section \<open>Updating a project's fields\<close>

lemma find_const: "List.find (\<lambda>d. b) xs = (if b then (case xs of [] \<Rightarrow> None | x # _ \<Rightarrow> Some x) else None)"
  by (cases xs; cases b) (simp_all add: find_False)

lemma updateFirst_append:
  "\<not> (\<exists>x\<in>set before. P x) \<Longrightarrow> P p \<Longrightarrow>
     updateFirst P upd (before @ p # after) = before @ upd p # after"
  by (induction before) simp_all

text \<open>
  Claim C4. With \<open>strictQuery\<close> on (as in Mongoose 6), for a project of the store whose
  id the path gives, a body with only \<open>name\<close> overwrites the name (trimmed by the
  schema's setter) and a body with only \<open>due_date\<close> overwrites the due date; every other
  field of the project, every other project and every other collection stay as they were.
\<close>

theorem patchProject_overwrites_only_provided:
  assumes strict: "strictQuery L"
    and cast: "castObjectId L projectId = Some (project_id p)"
    and here: "Project st = before @ p # after"
    and first: "project_id p \<notin> project_id ` set before"
  shows "snd (patchProject L st userId projectId (Some n) None) =
           st\<lparr>Project := before @ p\<lparr>name := trim n\<rparr> # after\<rparr> \<and>
         snd (patchProject L st userId projectId None (Some d)) =
           st\<lparr>Project := before @ p\<lparr>due_date := d\<rparr> # after\<rparr>"
proof -
  have found: "List.find (\<lambda>q. strictQuery L) (Project st) \<noteq> None"
    using strict here by (simp add: find_const split: list.splits)
  have upd: "updateFirst (\<lambda>q. project_id q = project_id p) f (Project st) = before @ f p # after" for f
  proof -
    have "\<not> (\<exists>x\<in>set before. project_id x = project_id p)"
      using first by (metis imageI)
    then show ?thesis
      by (simp add: here updateFirst_append)
  qed
  show ?thesis
    using found cast
    by (auto simp: patchProject_def Model_findOne_def Model_findByIdAndUpdate_def
          cast_project_userId_projectId cast_project_id upd set_name_due_date_def
          simp del: cast.simps)
qed

text \<open>Renaming Birthday Bash, and moving its date, on the scenario's store.\<close>

theorem patchProject_overwrites_only_provided_witness:
  "snd (patchProject mongoose6 partyStore aliceId bashId (Some ''  Garden party '') None) =
     partyStore\<lparr>Project := [bash\<lparr>name := ''Garden party''\<rparr>]\<rparr> \<and>
   snd (patchProject mongoose6 partyStore aliceId bashId None (Some ''2024-06-01'')) =
     partyStore\<lparr>Project := [bash\<lparr>due_date := ''2024-06-01''\<rparr>]\<rparr>"
proof -
  have c: "castObjectId mongoose6 bashId = Some (project_id bash)"
    by (simp add: mongoose6_def hexObjectId_def bashId_def bash_def)
  have h: "Project partyStore = [] @ bash # []"
    by (simp add: partyStore_def)
  have f: "project_id bash \<notin> project_id ` set []"
    by simp
  have s: "strictQuery mongoose6"
    by (simp add: mongoose6_def)
  have t: "trim ''  Garden party '' = ''Garden party''"
    by (simp add: trim_def isSpace_def)
  from patchProject_overwrites_only_provided [OF s c h f, of aliceId "''  Garden party ''" "''2024-06-01''"] t
  show ?thesis by simp
qed

text \<open>
  Every route registered with the middleware answers 401 and leaves the store as it was
  when the header is no stored token.
\<close>

lemma gated_routes_reject:
  assumes "gated req = Some authorization"
    and "authorization \<notin> Some ` accessToken ` set (User st)"
  shows "route L st req =
     (Some (Reply 401 (JObj [(''response'', JStr ''Please log in''), (''success'', JBool False)])), st)"
  using assms
  by (cases req)
     (simp_all add: deleteAccount_def changePassword_def getThemes_def getThemeById_def
        getThemesByType_def getItems_def getItemsByType_def getDecorationsByType_def
        getDrinksByType_def getFoodByType_def getActivitiesByType_def getProjects_def
        getSingleProject_def addProject_def addGuest_def deleteGuest_def deleteProject_def
        getProjectBoard_def authenticateUser_eq)

text \<open>The field-update route does not read the header.\<close>

lemma patchProject_ignores_authorization:
  "route L st (PatchProject authorization userId projectId b_name b_due_date) =
   route L st (PatchProject authorization' userId projectId b_name b_due_date)"
  by simp

text \<open>
  Claim C3. Every route but sign-up and sign-in is to reject a request whose token
  matches no stored token, without changing the store. The field-update route is
  registered without the middleware: with a token no user has it renames Alice's project,
  where the add-guest route, its neighbour, answers 401 and changes nothing.
\<close>

theorem patchProject_without_token_updates:
  "''no-such-token'' \<notin> set (map accessToken (User partyStore)) \<and>
   app mongoose6 1 partyStore
       (PatchProject (Some ''no-such-token'') aliceId bashId (Some ''Hijacked party'') None)
     = (Some (Reply 200 (JObj [(''response'', JStr ''Updated''), (''data'', JProject bash)])),
        partyStore\<lparr>Project := [bash\<lparr>name := ''Hijacked party''\<rparr>]\<rparr>) \<and>
   app mongoose6 1 partyStore
       (AddGuest (Some ''no-such-token'') aliceId bashId (Some ''Sam'') (Some 5551234) 53249)
     = (Some (Reply 401 (JObj [(''response'', JStr ''Please log in''), (''success'', JBool False)])),
        partyStore)"
  by (simp add: app_def connectionGate_def patchProject_def addGuest_def authenticateUser_eq
        Model_findOne_def Model_findByIdAndUpdate_def cast_project_userId_projectId cast_project_id
        partyStore_simps scenario_ids scenario_tokens send_def docOrNull_def set_name_due_date_def
        bash_def trim_def isSpace_def del: cast.simps)

text \<open>
  The replies of the field-update route carry \<open>success\<close> only in its \<open>catch\<close> branch.
  The project-board route has no \<open>else\<close>: it replies when its lookup finds a user, which
  an authenticated request does exactly when \<open>strictQuery\<close> is on. The project list
  awaits its query outside \<open>try\<close>: a \<open>userId\<close> that does not cast leaves the request
  without a reply.
\<close>

lemma getProjectBoard_reply:
  assumes "authorization \<in> Some ` accessToken ` set (User st)"
  shows "getProjectBoard L st authorization userId =
     (if strictQuery L
      then Some (Reply 200 (JObj [(''response'', JStr ''Welcome back''), (''success'', JBool True)]))
      else None, st)"
proof -
  from assms obtain u us where "User st = u # us"
    by (cases "User st") auto
  with assms show ?thesis
    by (simp add: getProjectBoard_def authenticateUser_eq Model_findOne_def cast_user_userId
          find_const del: cast.simps)
qed

lemma getProjects_no_reply:
  assumes "authorization \<in> Some ` accessToken ` set (User st)"
    and "castObjectId L userId = None"
  shows "getProjects L st authorization userId = (None, st)"
  using assms
  by (simp add: getProjects_def authenticateUser_eq Model_find_def cast_project_userProject
        del: cast.simps)

lemma patchProject_envelope_only_when_thrown:
  "fst (patchProject L st userId projectId b_name b_due_date) = Some r \<Longrightarrow>
     envelope (body r) \<longleftrightarrow> status r = 401"
  by (auto simp: patchProject_def Model_findOne_def Model_findByIdAndUpdate_def send_def
        cast_project_userId_projectId cast_project_id
        split: option.splits simp del: cast.simps)

text \<open>
  Claim C7. Every request is to get exactly one reply, with a boolean \<open>success\<close> and a
  \<open>response\<close>. The 200 reply of the field-update route has \<open>response\<close> and \<open>data\<close>
  and no \<open>success\<close>; the project list, asked with a \<open>userId\<close> that is no ObjectId, gets
  no reply.
\<close>

theorem replies_without_envelope:
  "app mongoose6 1 partyStore
       (PatchProject (Some aliceToken) aliceId bashId (Some ''Garden party'') None)
     = (Some (Reply 200 (JObj [(''response'', JStr ''Updated''), (''data'', JProject bash)])),
        partyStore\<lparr>Project := [bash\<lparr>name := ''Garden party''\<rparr>]\<rparr>) \<and>
   \<not> envelope (JObj [(''response'', JStr ''Updated''), (''data'', JProject bash)]) \<and>
   castObjectId mongoose6 ''me'' = None \<and>
   app mongoose6 1 partyStore (GetProjects (Some aliceToken) ''me'') = (None, partyStore)"
proof -
  have me: "castObjectId mongoose6 ''me'' = None"
    by (simp add: mongoose6_def hexObjectId_def)
  show ?thesis
    by (simp add: app_def connectionGate_def patchProject_def getProjects_def authenticateUser_eq
          Model_findOne_def Model_find_def Model_findByIdAndUpdate_def
          cast_project_userId_projectId cast_project_id cast_project_userProject
          partyStore_simps scenario_ids scenario_tokens send_def docOrNull_def
          set_name_due_date_def bash_def trim_def isSpace_def me del: cast.simps)
qed

section \<open>Filtering the catalog by type\<close>

text \<open>
  Claim C9. For an authenticated request and a type tag that no item of the collection
  carries, each of the five filter-by-type routes answers 200 with \<open>success\<close> true and
  the empty list, and leaves the store as it was.
\<close>

theorem type_filter_without_match_is_empty:
  assumes auth: "authorization \<in> Some ` accessToken ` set (User st)"
  shows
    "(typeParam \<notin> \<Union> (set ` theme_type ` set (Theme st)) \<longrightarrow>
        getThemesByType L st authorization typeParam =
          (Some (Reply 200 (JObj [(''response'', JThemes []), (''success'', JBool True)])), st)) \<and>
     (typeParam \<notin> \<Union> (set ` item_type ` set (Decoration st)) \<longrightarrow>
        getDecorationsByType L st authorization typeParam =
          (Some (Reply 200 (JObj [(''response'', JItems []), (''success'', JBool True)])), st)) \<and>
     (typeParam \<notin> \<Union> (set ` item_type ` set (Drink st)) \<longrightarrow>
        getDrinksByType L st authorization typeParam =
          (Some (Reply 200 (JObj [(''response'', JItems []), (''success'', JBool True)])), st)) \<and>
     (typeParam \<notin> \<Union> (set ` item_type ` set (Food st)) \<longrightarrow>
        getFoodByType L st authorization typeParam =
          (Some (Reply 200 (JObj [(''response'', JItems []), (''success'', JBool True)])), st)) \<and>
     (typeParam \<notin> \<Union> (set ` item_type ` set (Activity st)) \<longrightarrow>
        getActivitiesByType L st authorization typeParam =
          (Some (Reply 200 (JObj [(''response'', JItems []), (''success'', JBool True)])), st))"
proof -
  have none: "filter (\<lambda>d. typeParam \<in> set (f d)) xs = []" if "typeParam \<notin> \<Union> (set ` f ` set xs)"
    for f :: "'d \<Rightarrow> string list" and xs
    using that by (induction xs) auto
  show ?thesis
    using auth
    by (simp add: getThemesByType_def getDecorationsByType_def getDrinksByType_def
          getFoodByType_def getActivitiesByType_def getItemsByType_def authenticateUser_eq
          Model_find_def cast_theme_type cast_item_type none del: cast.simps)
qed

text \<open>
  A catalog where every item is tagged \<open>kids\<close>, asked for \<open>wedding\<close>; asked for \<open>kids\<close>,
  the drinks route answers with the item.
\<close>

theorem type_filter_without_match_is_empty_witness:
  "getThemesByType mongoose6 catalogStore (Some aliceToken) ''wedding'' =
     (Some (Reply 200 (JObj [(''response'', JThemes []), (''success'', JBool True)])), catalogStore) \<and>
   getDecorationsByType mongoose6 catalogStore (Some aliceToken) ''wedding'' =
     (Some (Reply 200 (JObj [(''response'', JItems []), (''success'', JBool True)])), catalogStore) \<and>
   getDrinksByType mongoose6 catalogStore (Some aliceToken) ''wedding'' =
     (Some (Reply 200 (JObj [(''response'', JItems []), (''success'', JBool True)])), catalogStore) \<and>
   getFoodByType mongoose6 catalogStore (Some aliceToken) ''wedding'' =
     (Some (Reply 200 (JObj [(''response'', JItems []), (''success'', JBool True)])), catalogStore) \<and>
   getActivitiesByType mongoose6 catalogStore (Some aliceToken) ''wedding'' =
     (Some (Reply 200 (JObj [(''response'', JItems []), (''success'', JBool True)])), catalogStore)"
proof -
  have a: "Some aliceToken \<in> Some ` accessToken ` set (User catalogStore)"
    by (simp add: catalogStore_def partyStore_def alice_def)
  have t: "''wedding'' \<notin> \<Union> (set ` theme_type ` set (Theme catalogStore))"
    by (simp add: catalogStore_def pirates_def)
  have i: "''wedding'' \<notin> \<Union> (set ` item_type ` set (Decoration catalogStore))"
    "''wedding'' \<notin> \<Union> (set ` item_type ` set (Drink catalogStore))"
    "''wedding'' \<notin> \<Union> (set ` item_type ` set (Food catalogStore))"
    "''wedding'' \<notin> \<Union> (set ` item_type ` set (Activity catalogStore))"
    by (simp_all add: catalogStore_def lemonade_def)
  from type_filter_without_match_is_empty [OF a, of "''wedding''" mongoose6] t i
  show ?thesis by simp
qed

lemma getDrinksByType_match:
  "getDrinksByType mongoose6 catalogStore (Some aliceToken) ''kids'' =
     (Some (Reply 200 (JObj [(''response'', JItems [lemonade]), (''success'', JBool True)])), catalogStore)"
  by (simp add: getDrinksByType_def getItemsByType_def authenticateUser_eq Model_find_def
        cast_item_type catalogStore_def partyStore_def alice_def lemonade_def del: cast.simps)

section \<open>Signing in\<close>

text \<open>
  The unique index on \<open>email\<close> makes the stored emails distinct; the lookup then finds
  the one user who has the email. A body without a password is answered 400 when no user
  has the email and 500 when one has.
\<close>

lemma find_unique_email:
  "distinct (map email us) \<Longrightarrow> u \<in> set us \<Longrightarrow> List.find (\<lambda>x. email x = email u) us = Some u"
proof (induction us)
  case Nil
  then show ?case by simp
next
  case (Cons a us)
  show ?case
  proof (cases "a = u")
    case True
    then show ?thesis by simp
  next
    case False
    with Cons.prems have in_rest: "u \<in> set us" and "email a \<notin> email ` set us"
      by simp_all
    then have "email a \<noteq> email u"
      by (metis imageI)
    moreover have "List.find (\<lambda>x. email x = email u) us = Some u"
      using Cons.IH Cons.prems(1) in_rest by simp
    ultimately show ?thesis by simp
  qed
qed

lemma signIn_unknown_email:
  "b_email \<notin> Some ` email ` set (User st) \<Longrightarrow>
   signIn L st b_email b_password =
     (Some (Reply 400 (JObj [(''success'', JBool False),
                             (''response'', JStr ''Credentials did not match'')])), st)"
proof -
  assume "b_email \<notin> Some ` email ` set (User st)"
  then have "List.find (\<lambda>u. Some (email u) = b_email) (User st) = None"
    by (auto simp: find_None_iff)
  then show ?thesis
    by (simp add: signIn_def Model_findOne_def cast_email del: cast.simps)
qed

lemma signIn_known_email:
  assumes "distinct (map email (User st))" and "u \<in> set (User st)"
  shows "signIn L st (Some (email u)) (Some pw) =
     (if compareSync L pw (password u) then
        (Some (Reply 201 (JObj [(''success'', JBool True),
                                (''response'', JObj [(''userId'', JId (user_id u)),
                                                     (''email'', JStr (email u)),
                                                     (''accessToken'', JStr (accessToken u))])])), st)
      else
        (Some (Reply 400 (JObj [(''success'', JBool False),
                                (''response'', JStr ''Credentials did not match'')])), st))"
  using find_unique_email [OF assms]
  by (simp add: signIn_def Model_findOne_def cast_email del: cast.simps)

lemma signIn_absent_password:
  assumes "distinct (map email (User st))" and "u \<in> set (User st)"
  shows "signIn L st (Some (email u)) None =
     (Some (Reply 500 (JObj [(''success'', JBool False),
                             (''response'', JStr ''oops something went wrong''),
                             (''error'', JErr BcryptError)])), st)"
  using find_unique_email [OF assms]
  by (simp add: signIn_def Model_findOne_def cast_email del: cast.simps)

lemma signIn_no_password:
  "\<not> succeeded (fst (signIn L st b_email None))"
  by (simp add: signIn_def Model_findOne_def cast_email split: option.splits del: cast.simps)

text \<open>
  Claim C6. On a store whose emails are distinct, sign-in replies with \<open>success: true\<close>
  exactly when the body's email is the email of a stored user and \<open>compareSync\<close> accepts
  the body's password against that user's stored hash; the reply then carries that user's
  id, email and token. A password that \<open>compareSync\<close> rejects gets the very reply, 400
  with the same message, that an email of no stored user gets, and the store is unchanged.
\<close>

theorem signIn_succeeds_iff_credentials_match:
  assumes unique: "distinct (map email (User st))"
  shows
    "(succeeded (fst (signIn L st b_email b_password)) \<longleftrightarrow>
        (\<exists>u\<in>set (User st). \<exists>pw. b_email = Some (email u) \<and> b_password = Some pw \<and>
            compareSync L pw (password u))) \<and>
     (\<forall>u\<in>set (User st). \<forall>pw. compareSync L pw (password u) \<longrightarrow>
        signIn L st (Some (email u)) (Some pw) =
          (Some (Reply 201 (JObj [(''success'', JBool True),
                                  (''response'', JObj [(''userId'', JId (user_id u)),
                                                       (''email'', JStr (email u)),
                                                       (''accessToken'', JStr (accessToken u))])])), st)) \<and>
     (\<forall>u\<in>set (User st). \<forall>pw e pw'.
        \<not> compareSync L pw (password u) \<and> e \<notin> email ` set (User st) \<longrightarrow>
          signIn L st (Some (email u)) (Some pw) = signIn L st (Some e) pw' \<and>
          signIn L st (Some e) pw' =
            (Some (Reply 400 (JObj [(''success'', JBool False),
                                    (''response'', JStr ''Credentials did not match'')])), st))"
proof (intro conjI)
  show "succeeded (fst (signIn L st b_email b_password)) \<longleftrightarrow>
        (\<exists>u\<in>set (User st). \<exists>pw. b_email = Some (email u) \<and> b_password = Some pw \<and>
            compareSync L pw (password u))"
  proof (cases "b_email \<in> Some ` email ` set (User st)")
    case False
    then have "\<not> succeeded (fst (signIn L st b_email b_password))"
      by (simp add: signIn_unknown_email)
    with False show ?thesis by auto
  next
    case True
    then obtain u where u: "u \<in> set (User st)" "b_email = Some (email u)" by auto
    show ?thesis
    proof (cases b_password)
      case None
      then show ?thesis by (simp add: signIn_no_password)
    next
      case (Some pw)
      have known: "succeeded (fst (signIn L st b_email b_password)) \<longleftrightarrow> compareSync L pw (password u)"
        by (simp add: Some u(2) signIn_known_email [OF unique u(1)])
      show ?thesis
      proof
        assume "succeeded (fst (signIn L st b_email b_password))"
        with known have "compareSync L pw (password u)" by simp
        with u Some show "\<exists>u\<in>set (User st). \<exists>pw. b_email = Some (email u) \<and> b_password = Some pw \<and>
            compareSync L pw (password u)"
          by blast
      next
        assume "\<exists>u\<in>set (User st). \<exists>pw. b_email = Some (email u) \<and> b_password = Some pw \<and>
            compareSync L pw (password u)"
        then obtain v pw' where v: "v \<in> set (User st)" "b_email = Some (email v)"
          "b_password = Some pw'" "compareSync L pw' (password v)"
          by blast
        from v(2) u(2) have "email v = email u" by simp
        then have "List.find (\<lambda>x. email x = email u) (User st) = Some v"
          using find_unique_email [OF unique v(1)] by simp
        moreover have "List.find (\<lambda>x. email x = email u) (User st) = Some u"
          using find_unique_email [OF unique u(1)] .
        ultimately have "v = u" by simp
        moreover from v(3) Some have "pw' = pw" by simp
        ultimately have "compareSync L pw (password u)" using v(4) by simp
        with known show "succeeded (fst (signIn L st b_email b_password))" by simp
      qed
    qed
  qed
next
  show "\<forall>u\<in>set (User st). \<forall>pw. compareSync L pw (password u) \<longrightarrow>
        signIn L st (Some (email u)) (Some pw) =
          (Some (Reply 201 (JObj [(''success'', JBool True),
                                  (''response'', JObj [(''userId'', JId (user_id u)),
                                                       (''email'', JStr (email u)),
                                                       (''accessToken'', JStr (accessToken u))])])), st)"
    by (simp add: signIn_known_email [OF unique])
next
  show "\<forall>u\<in>set (User st). \<forall>pw e pw'.
        \<not> compareSync L pw (password u) \<and> e \<notin> email ` set (User st) \<longrightarrow>
          signIn L st (Some (email u)) (Some pw) = signIn L st (Some e) pw' \<and>
          signIn L st (Some e) pw' =
            (Some (Reply 400 (JObj [(''success'', JBool False),
                                    (''response'', JStr ''Credentials did not match'')])), st)"
  proof (intro ballI allI impI)
    fix u pw e pw'
    assume u: "u \<in> set (User st)"
      and "\<not> compareSync L pw (password u) \<and> e \<notin> email ` set (User st)"
    then have wrong: "\<not> compareSync L pw (password u)" and "Some e \<notin> Some ` email ` set (User st)"
      by auto
    then have "signIn L st (Some e) pw' =
            (Some (Reply 400 (JObj [(''success'', JBool False),
                                    (''response'', JStr ''Credentials did not match'')])), st)"
      by (simp add: signIn_unknown_email)
    moreover have "signIn L st (Some (email u)) (Some pw) =
            (Some (Reply 400 (JObj [(''success'', JBool False),
                                    (''response'', JStr ''Credentials did not match'')])), st)"
      using wrong by (simp add: signIn_known_email [OF unique u])
    ultimately show "signIn L st (Some (email u)) (Some pw) = signIn L st (Some e) pw' \<and>
          signIn L st (Some e) pw' =
            (Some (Reply 400 (JObj [(''success'', JBool False),
                                    (''response'', JStr ''Credentials did not match'')])), st)"
      by simp
  qed
qed

text \<open>
  Alice signs in with her password; with another password her reply is the reply for an
  email nobody has.
\<close>

theorem signIn_succeeds_iff_credentials_match_witness:
  "succeeded (fst (signIn mongoose6 partyStore (Some ''a@b.com'') (Some ''password1''))) \<and>
   signIn mongoose6 partyStore (Some ''a@b.com'') (Some ''password1'') =
     (Some (Reply 201 (JObj [(''success'', JBool True),
                             (''response'', JObj [(''userId'', JId 161), (''email'', JStr ''a@b.com''),
                                                  (''accessToken'', JStr aliceToken)])])), partyStore) \<and>
   \<not> succeeded (fst (signIn mongoose6 partyStore (Some ''a@b.com'') (Some ''password9''))) \<and>
   signIn mongoose6 partyStore (Some ''a@b.com'') (Some ''password9'') =
     signIn mongoose6 partyStore (Some ''nobody@b.com'') (Some ''password9'')"
proof -
  have d: "distinct (map email (User partyStore))"
    by (simp add: partyStore_simps alice_def bob_def)
  have a: "alice \<in> set (User partyStore)"
    by (simp add: partyStore_simps)
  have fields: "email alice = ''a@b.com''" "user_id alice = 161" "accessToken alice = aliceToken"
    by (simp_all add: alice_def)
  have r: "compareSync mongoose6 ''password1'' (password alice)"
    and w: "\<not> compareSync mongoose6 ''password9'' (password alice)"
    by (simp_all add: mongoose6_def alice_def)
  have n: "''nobody@b.com'' \<notin> email ` set (User partyStore)"
    by (simp add: partyStore_simps alice_def bob_def)
  note t = signIn_succeeds_iff_credentials_match [OF d, of mongoose6]
  have "\<exists>u\<in>set (User partyStore). \<exists>pw. Some ''a@b.com'' = Some (email u) \<and>
          Some ''password1'' = Some pw \<and> compareSync mongoose6 pw (password u)"
    using a r fields(1) by (intro bexI [of _ alice] exI [of _ "''password1''"]) simp_all
  with t [of "Some ''a@b.com''" "Some ''password1''", THEN conjunct1]
  have 1: "succeeded (fst (signIn mongoose6 partyStore (Some ''a@b.com'') (Some ''password1'')))"
    by (rule iffD2)
  from t [of None None, THEN conjunct2, THEN conjunct1, rule_format, OF a r]
  have 2: "signIn mongoose6 partyStore (Some ''a@b.com'') (Some ''password1'') =
     (Some (Reply 201 (JObj [(''success'', JBool True),
                             (''response'', JObj [(''userId'', JId 161), (''email'', JStr ''a@b.com''),
                                                  (''accessToken'', JStr aliceToken)])])), partyStore)"
    by (simp add: fields)
  from t [of None None, THEN conjunct2, THEN conjunct2, rule_format, OF a conjI [OF w n],
          of "Some ''password9''"]
  have 34: "signIn mongoose6 partyStore (Some ''a@b.com'') (Some ''password9'') =
              signIn mongoose6 partyStore (Some ''nobody@b.com'') (Some ''password9'')"
    "signIn mongoose6 partyStore (Some ''nobody@b.com'') (Some ''password9'') =
            (Some (Reply 400 (JObj [(''success'', JBool False),
                                    (''response'', JStr ''Credentials did not match'')])), partyStore)"
    by (simp_all add: fields)
  then have 3: "\<not> succeeded (fst (signIn mongoose6 partyStore (Some ''a@b.com'') (Some ''password9'')))"
    by simp
  from 1 2 3 34(1) show ?thesis by (intro conjI)
qed

section \<open>Tokens\<close>

subsection \<open>The hexadecimal encoding is injective\<close>

lemma hexDigit_inj: "m < 16 \<Longrightarrow> n < 16 \<Longrightarrow> hexDigit m = hexDigit n \<Longrightarrow> m = n"
proof -
  assume "m < 16" "n < 16" "hexDigit m = hexDigit n"
  moreover have "distinct ''0123456789abcdef''" by simp
  moreover have "length ''0123456789abcdef'' = 16" by simp
  ultimately show "m = n"
    unfolding hexDigit_def by (metis nth_eq_iff_index_eq)
qed

lemma hexByte_inj:
  fixes a b :: "8 word"
  assumes "hexDigit (unat a div 16) = hexDigit (unat b div 16)"
    and "hexDigit (unat a mod 16) = hexDigit (unat b mod 16)"
  shows "a = b"
proof -
  have "unat a < 256" "unat b < 256"
    using unsigned_less [of a, where ?'a = nat] unsigned_less [of b, where ?'a = nat] by simp_all
  then have "unat a div 16 < 16" "unat b div 16 < 16"
    by simp_all
  with assms(1) have d: "unat a div 16 = unat b div 16"
    by (intro hexDigit_inj)
  have "unat a mod 16 = unat b mod 16"
    using assms(2) by (intro hexDigit_inj) simp_all
  with d have "unat a = unat b"
    by (metis div_mult_mod_eq)
  then show ?thesis by (simp add: word_unat_eq_iff)
qed

lemma toHex_inj: "toHex xs = toHex ys \<Longrightarrow> xs = ys"
proof (induction xs arbitrary: ys)
  case Nil
  then show ?case by (cases ys) simp_all
next
  case (Cons x xs)
  then show ?case by (cases ys) (auto dest: hexByte_inj)
qed

subsection \<open>What each route does to the users' tokens\<close>

text \<open>A sign-up whose input passes every check creates the account.\<close>

lemma toLowerCase_Nil: "toLowerCase em = [] \<longleftrightarrow> em = []"
  by (simp add: toLowerCase_def)

lemma signUp_valid:
  assumes "8 \<le> length pw" and "em \<noteq> []" and "toLowerCase em \<notin> email ` set (User st)"
    and "8 \<le> length (hashSync L pw salt)"
  shows "signUp L st (Some em) (Some pw) salt entropy newId =
     (Some (Reply 201 (JObj
        [(''response'', JObj [(''email'', JStr (toLowerCase em)),
                              (''accessToken'', JStr (toHex (randomBytes entropy 128))),
                              (''userId'', JId newId)]),
         (''success'', JBool True)])),
      st\<lparr>User := User st @ [\<lparr>user_id = newId, email = toLowerCase em,
                                password = hashSync L pw salt,
                                accessToken = toHex (randomBytes entropy 128)\<rparr>]\<rparr>)"
  using assms by (simp add: signUp_def signUp_try_def User_save_def toLowerCase_Nil)

text \<open>
  No route rewrites a token: a request leaves the list of tokens as it was, removes its
  first element (account deletion), or appends the encoding of the bytes a sign-up drew.
\<close>

lemma signUp_tokens:
  "map accessToken (User (snd (signUp L st b_email b_password salt entropy newId))) =
     map accessToken (User st) \<or>
   map accessToken (User (snd (signUp L st b_email b_password salt entropy newId))) =
     map accessToken (User st) @ [toHex (randomBytes entropy 128)]"
  by (auto simp: signUp_def signUp_try_def signUp_catch_def User_save_def Model_findOne_def cast_email
        split: option.splits simp del: cast.simps)

lemma signIn_users: "User (snd (signIn L st b_email b_password)) = User st"
  by (simp add: signIn_def Model_findOne_def cast_email split: option.splits del: cast.simps)

lemma deleteFirst_const: "deleteFirst (\<lambda>d. b) xs = (if b then tl xs else xs)"
  by (cases b) (simp_all add: deleteFirst_True deleteFirst_False)

lemma deleteAccount_tokens:
  "map accessToken (User (snd (deleteAccount L st authorization userId))) = map accessToken (User st) \<or>
   map accessToken (User (snd (deleteAccount L st authorization userId))) = tl (map accessToken (User st))"
  by (auto simp: deleteAccount_def authenticateUser_eq Model_findOneAndDelete_def cast_user_userId
        deleteFirst_const find_const map_tl split: list.splits simp del: cast.simps)

lemma updateFirst_password_tokens:
  "map accessToken (updateFirst P (\<lambda>u. u\<lparr>password := h\<rparr>) us) = map accessToken us"
  by (induction us) simp_all

lemma changePassword_tokens:
  "map accessToken (User (snd (changePassword L st authorization userId b_password salt))) =
     map accessToken (User st)"
  by (auto simp: changePassword_def authenticateUser_eq Model_findOne_def Model_findByIdAndUpdate_def
        cast_user_userId cast_user_id updateFirst_password_tokens
        split: option.splits simp del: cast.simps)

lemma catalog_users:
  "User (snd (getThemes L st authorization)) = User st"
  "User (snd (getThemeById L st authorization idParam)) = User st"
  "User (snd (getThemesByType L st authorization typeParam)) = User st"
  "User (snd (getItems L st authorization Model)) = User st"
  "User (snd (getItemsByType L st authorization Model message typeParam)) = User st"
  by (simp_all add: getThemes_def getThemeById_def getThemesByType_def getItems_def
        getItemsByType_def authenticateUser_eq Model_find_def Model_findById_def Model_findOne_def
        cast_theme_type cast_item_type split: sum.splits option.splits del: cast.simps)

lemma project_users:
  "User (snd (getProjects L st authorization userId)) = User st"
  "User (snd (getSingleProject L st authorization userId projectId)) = User st"
  "User (snd (addProject L st authorization userId b_name b_due_date newId now)) = User st"
  "User (snd (patchProject L st userId projectId b_name b_due_date)) = User st"
  "User (snd (addGuest L st authorization userId projectId b_guestName b_phone newId)) = User st"
  "User (snd (deleteGuest L st authorization userId projectId guestId)) = User st"
  "User (snd (deleteProject L st authorization userId projectId)) = User st"
  "User (snd (getProjectBoard L st authorization userId)) = User st"
  by (simp_all add: getProjects_def getSingleProject_def addProject_def patchProject_def
        addGuest_def deleteGuest_def deleteProject_def getProjectBoard_def Let_def
        authenticateUser_eq Model_find_def Model_findOne_def Model_findOneAndDelete_def
        Model_findByIdAndUpdate_def cast_project_userProject cast_project_projectId_userProject
        cast_project_userId_projectId cast_project_projectId cast_project_id cast_user_userId
        cast_guest_projectId
        split: sum.splits option.splits prod.splits del: cast.simps)

lemma route_tokens:
  "map accessToken (User (snd (route L st req))) = map accessToken (User st) \<or>
   map accessToken (User (snd (route L st req))) = tl (map accessToken (User st)) \<or>
   (\<exists>bs\<in>set (drawn [req]).
      map accessToken (User (snd (route L st req))) = map accessToken (User st) @ [toHex bs])"
proof (cases req)
  case (SignUp b_email b_password salt entropy newId)
  then show ?thesis using signUp_tokens [of L st b_email b_password salt entropy newId] by auto
next
  case (DeleteAccount authorization userId)
  then show ?thesis using deleteAccount_tokens [of L st authorization userId] by auto
qed (simp_all add: signIn_users changePassword_tokens catalog_users project_users
       getDecorationsByType_def getDrinksByType_def getFoodByType_def getActivitiesByType_def)

subsection \<open>Runs of the server\<close>

lemma drawn_Cons: "drawn (req # reqs) = drawn [req] @ drawn reqs"
  by (cases req) simp_all

lemma run_Cons: "run L st (req # reqs) = run L (snd (route L st req)) reqs"
  by (simp add: app_def connectionGate_def)

lemma step_tokens:
  assumes d: "distinct (map accessToken (User st))"
    and fresh: "set (map accessToken (User st)) \<inter> toHex ` set (drawn [req]) = {}"
  shows "distinct (map accessToken (User (snd (route L st req)))) \<and>
         set (map accessToken (User (snd (route L st req))))
           \<subseteq> set (map accessToken (User st)) \<union> toHex ` set (drawn [req])"
proof -
  let ?ts = "map accessToken (User st)"
  let ?ts1 = "map accessToken (User (snd (route L st req)))"
  consider "?ts1 = ?ts" | "?ts1 = tl ?ts" | bs where "bs \<in> set (drawn [req])" "?ts1 = ?ts @ [toHex bs]"
    using route_tokens [of L st req] by blast
  then show ?thesis
  proof cases
    case 1
    with d show ?thesis by auto
  next
    case 2
    have "set (tl ?ts) \<subseteq> set ?ts"
      by (cases ?ts) auto
    with 2 d show ?thesis by (auto simp: distinct_tl)
  next
    case 3
    from 3(1) fresh have "toHex bs \<notin> set ?ts" by auto
    with 3 d show ?thesis by auto
  qed
qed

lemma run_tokens:
  assumes "distinct (map accessToken (User st))"
    and "set (map accessToken (User st)) \<inter> toHex ` set (drawn reqs) = {}"
    and "distinct (drawn reqs)"
  shows "distinct (map accessToken (User (run L st reqs))) \<and>
         set (map accessToken (User (run L st reqs)))
           \<subseteq> set (map accessToken (User st)) \<union> toHex ` set (drawn reqs)"
  using assms
proof (induction reqs arbitrary: st)
  case Nil
  then show ?case by simp
next
  case (Cons req reqs)
  let ?st1 = "snd (route L st req)"
  have split: "drawn (req # reqs) = drawn [req] @ drawn reqs"
    by (rule drawn_Cons)
  from Cons.prems(2) have fresh: "set (map accessToken (User st)) \<inter> toHex ` set (drawn [req]) = {}"
    and later: "set (map accessToken (User st)) \<inter> toHex ` set (drawn reqs) = {}"
    unfolding split by auto
  from Cons.prems(3) have apart: "set (drawn [req]) \<inter> set (drawn reqs) = {}"
    and rest: "distinct (drawn reqs)"
    unfolding split by auto
  from step_tokens [OF Cons.prems(1) fresh]
  have d1: "distinct (map accessToken (User ?st1))"
    and s1: "set (map accessToken (User ?st1))
               \<subseteq> set (map accessToken (User st)) \<union> toHex ` set (drawn [req])"
    by simp_all
  have "toHex ` set (drawn [req]) \<inter> toHex ` set (drawn reqs) = {}"
    using apart toHex_inj by blast
  with s1 later have f1: "set (map accessToken (User ?st1)) \<inter> toHex ` set (drawn reqs) = {}"
    by blast
  from Cons.IH [OF d1 f1 rest]
  have r1: "distinct (map accessToken (User (run L ?st1 reqs)))"
    and r2: "set (map accessToken (User (run L ?st1 reqs)))
           \<subseteq> set (map accessToken (User ?st1)) \<union> toHex ` set (drawn reqs)"
    by simp_all
  from s1 r2 have "set (map accessToken (User (run L ?st1 reqs)))
      \<subseteq> set (map accessToken (User st)) \<union> toHex ` set (drawn [req] @ drawn reqs)"
    unfolding set_append image_Un by blast
  with r1 show ?case
    unfolding split run_Cons by (rule conjI)
qed

text \<open>
  Whatever the draws are, every token of a run from a store without users is the encoding
  of the 128 bytes some sign-up of the run drew.
\<close>

lemma drawn_single: "bs \<in> set (drawn [req]) \<Longrightarrow> length bs = 128"
  by (cases req) (auto simp: length_randomBytes)

lemma drawn_length: "bs \<in> set (drawn reqs) \<Longrightarrow> length bs = 128"
proof (induction reqs)
  case Nil
  then show ?case by simp
next
  case (Cons req reqs)
  from Cons.prems have "bs \<in> set (drawn [req]) \<or> bs \<in> set (drawn reqs)"
    unfolding drawn_Cons [of req reqs] by simp
  then show ?case
    using drawn_single Cons.IH by blast
qed

lemma step_token_set:
  "set (map accessToken (User (snd (route L st req))))
     \<subseteq> set (map accessToken (User st)) \<union> toHex ` set (drawn [req])"
proof -
  let ?ts = "map accessToken (User st)"
  let ?ts1 = "map accessToken (User (snd (route L st req)))"
  consider "?ts1 = ?ts" | "?ts1 = tl ?ts" | bs where "bs \<in> set (drawn [req])" "?ts1 = ?ts @ [toHex bs]"
    using route_tokens [of L st req] by blast
  then show ?thesis
  proof cases
    case 1
    then show ?thesis by auto
  next
    case 2
    have "set (tl ?ts) \<subseteq> set ?ts"
      by (cases ?ts) auto
    with 2 show ?thesis by auto
  next
    case 3
    then show ?thesis by auto
  qed
qed

lemma run_token_set:
  "set (map accessToken (User (run L st reqs)))
     \<subseteq> set (map accessToken (User st)) \<union> toHex ` set (drawn reqs)"
proof (induction reqs arbitrary: st)
  case Nil
  then show ?case by simp
next
  case (Cons req reqs)
  let ?st1 = "snd (route L st req)"
  have "set (map accessToken (User (run L ?st1 reqs)))
          \<subseteq> set (map accessToken (User ?st1)) \<union> toHex ` set (drawn reqs)"
    by (rule Cons.IH)
  moreover have "set (map accessToken (User ?st1))
          \<subseteq> set (map accessToken (User st)) \<union> toHex ` set (drawn [req])"
    by (rule step_token_set)
  ultimately have "set (map accessToken (User (run L ?st1 reqs)))
      \<subseteq> set (map accessToken (User st)) \<union> toHex ` set (drawn [req] @ drawn reqs)"
    unfolding set_append image_Un by blast
  then show ?case
    unfolding run_Cons drawn_Cons [of req reqs] .
qed

text \<open>
  Claim C8, as the code has it. Tokens are never compared: the schema has no unique index
  on \<open>accessToken\<close> and sign-up neither checks nor retries. Alice and Eve are two accounts,
  with different ids and emails, created by two valid sign-ups; the generator gives both
  requests the same bytes, and the two accounts have the same token.
\<close>

theorem signUp_same_draw_shares_token:
  "User (run mongoose6 emptyStore collision) = [alice, eve] \<and>
   user_id alice \<noteq> user_id eve \<and>
   email alice \<noteq> email eve \<and>
   accessToken alice = accessToken eve"
  by (simp add: collision_def app_def connectionGate_def signUp_def signUp_try_def User_save_def
        emptyStore_def alice_def eve_def mongoose6_def toLowerCase_def
        aliceToken_def aliceBytes_def)

text \<open>
  Claim C8, amended. A sign-up with valid input (a password of 8 characters or more, an
  email that is not empty and not taken, a hash the schema accepts) stores, and returns,
  the hexadecimal encoding of the 128 bytes drawn for the new account, a token of 256
  characters; in every run of the server from a store without users, whatever the requests
  are, every user's token has 256 characters; and when the sign-ups of the run draw
  pairwise different byte strings, the users of the store have pairwise different tokens.
\<close>

theorem signUp_tokens_nonempty_and_distinct_draws:
  "(8 \<le> length pw \<and> em \<noteq> [] \<and> toLowerCase em \<notin> email ` set (User st) \<and>
    8 \<le> length (hashSync L pw salt) \<longrightarrow>
      signUp L st (Some em) (Some pw) salt entropy newId =
        (Some (Reply 201 (JObj
           [(''response'', JObj [(''email'', JStr (toLowerCase em)),
                                 (''accessToken'', JStr (toHex (randomBytes entropy 128))),
                                 (''userId'', JId newId)]),
            (''success'', JBool True)])),
         st\<lparr>User := User st @ [\<lparr>user_id = newId, email = toLowerCase em,
                                   password = hashSync L pw salt,
                                   accessToken = toHex (randomBytes entropy 128)\<rparr>]\<rparr>)) \<and>
   length (toHex (randomBytes entropy 128)) = 256 \<and>
   (User st0 = [] \<longrightarrow>
      (\<forall>u\<in>set (User (run L st0 reqs)). length (accessToken u) = 256)) \<and>
   (User st0 = [] \<and> distinct (drawn reqs) \<longrightarrow>
      distinct (map accessToken (User (run L st0 reqs))))"
proof (intro conjI impI)
  assume "8 \<le> length pw \<and> em \<noteq> [] \<and> toLowerCase em \<notin> email ` set (User st) \<and>
    8 \<le> length (hashSync L pw salt)"
  then show "signUp L st (Some em) (Some pw) salt entropy newId =
        (Some (Reply 201 (JObj
           [(''response'', JObj [(''email'', JStr (toLowerCase em)),
                                 (''accessToken'', JStr (toHex (randomBytes entropy 128))),
                                 (''userId'', JId newId)]),
            (''success'', JBool True)])),
         st\<lparr>User := User st @ [\<lparr>user_id = newId, email = toLowerCase em,
                                   password = hashSync L pw salt,
                                   accessToken = toHex (randomBytes entropy 128)\<rparr>]\<rparr>)"
    by (simp add: signUp_valid)
next
  show "length (toHex (randomBytes entropy 128)) = 256"
    by (simp add: length_toHex length_randomBytes)
next
  assume empty: "User st0 = []"
  have s: "set (map accessToken (User (run L st0 reqs))) \<subseteq> toHex ` set (drawn reqs)"
    using run_token_set [of L st0 reqs] empty by simp
  show "\<forall>u\<in>set (User (run L st0 reqs)). length (accessToken u) = 256"
  proof
    fix u
    assume "u \<in> set (User (run L st0 reqs))"
    then have "accessToken u \<in> set (map accessToken (User (run L st0 reqs)))"
      by simp
    with s obtain draw where "draw \<in> set (drawn reqs)" "accessToken u = toHex draw"
      by blast
    then show "length (accessToken u) = 256"
      by (simp add: length_toHex drawn_length)
  qed
next
  assume a: "User st0 = [] \<and> distinct (drawn reqs)"
  then have "distinct (map accessToken (User st0))"
    and "set (map accessToken (User st0)) \<inter> toHex ` set (drawn reqs) = {}"
    and "distinct (drawn reqs)"
    by simp_all
  from run_tokens [OF this]
  show "distinct (map accessToken (User (run L st0 reqs)))"
    by simp
qed

text \<open>Alice's sign-up, and the tokens after the scenario.\<close>

lemma scenario_drawn: "drawn scenario = [aliceBytes, bobBytes]"
  by (simp add: scenario_def aliceBytes_def bobBytes_def)

theorem signUp_tokens_nonempty_and_distinct_draws_witness:
  "signUp mongoose6 emptyStore (Some ''A@b.com'') (Some ''password1'')
      ''$2b$10$abcdefghijklmnopqrstuv'' aliceEntropy 161 =
     (Some (Reply 201 (JObj
        [(''response'', JObj [(''email'', JStr ''a@b.com''), (''accessToken'', JStr aliceToken),
                              (''userId'', JId 161)]),
         (''success'', JBool True)])),
      emptyStore\<lparr>User := [alice]\<rparr>) \<and>
   length aliceToken = 256 \<and>
   User (run mongoose6 emptyStore scenario) = [alice, bob] \<and>
   length (accessToken bob) = 256 \<and>
   aliceBytes \<noteq> bobBytes \<and>
   aliceToken \<noteq> bobToken"
proof -
  note t = signUp_tokens_nonempty_and_distinct_draws
    [where pw = "''password1''" and em = "''A@b.com''" and st = emptyStore and L = mongoose6
       and salt = "''$2b$10$abcdefghijklmnopqrstuv''" and entropy = aliceEntropy and newId = 161
       and ?st0.0 = emptyStore and reqs = scenario]
  have valid: "8 \<le> length ''password1'' \<and> ''A@b.com'' \<noteq> [] \<and>
      toLowerCase ''A@b.com'' \<notin> email ` set (User emptyStore) \<and>
      8 \<le> length (hashSync mongoose6 ''password1'' ''$2b$10$abcdefghijklmnopqrstuv'')"
    by (simp add: emptyStore_def mongoose6_def)
  have lower: "toLowerCase ''A@b.com'' = ''a@b.com''"
    by (simp add: toLowerCase_def)
  have token: "toHex (randomBytes aliceEntropy 128) = aliceToken"
    by (simp add: aliceToken_def aliceBytes_def)
  have stored: "\<lparr>user_id = 161, email = ''a@b.com'',
                  password = hashSync mongoose6 ''password1'' ''$2b$10$abcdefghijklmnopqrstuv'',
                  accessToken = aliceToken\<rparr> = alice"
    by (simp add: alice_def mongoose6_def)
  from t [THEN conjunct1, rule_format, OF valid]
  have 1: "signUp mongoose6 emptyStore (Some ''A@b.com'') (Some ''password1'')
      ''$2b$10$abcdefghijklmnopqrstuv'' aliceEntropy 161 =
     (Some (Reply 201 (JObj
        [(''response'', JObj [(''email'', JStr ''a@b.com''), (''accessToken'', JStr aliceToken),
                              (''userId'', JId 161)]),
         (''success'', JBool True)])),
      emptyStore\<lparr>User := [alice]\<rparr>)"
    by (simp add: lower token stored emptyStore_def)
  from t [THEN conjunct2, THEN conjunct1]
  have 2: "length aliceToken = 256"
    by (simp add: token)
  have empty: "User emptyStore = []"
    by (simp add: emptyStore_def)
  have 3: "User (run mongoose6 emptyStore scenario) = [alice, bob]"
    by (simp add: scenario_reaches_partyStore partyStore_simps)
  from t [THEN conjunct2, THEN conjunct2, THEN conjunct1, rule_format, OF empty, of bob]
  have 4: "length (accessToken bob) = 256"
    by (simp add: 3)
  have 5: "aliceBytes \<noteq> bobBytes"
    by (simp add: scenario_bytes)
  then have runs: "User emptyStore = [] \<and> distinct (drawn scenario)"
    by (simp add: scenario_drawn empty)
  from t [THEN conjunct2, THEN conjunct2, THEN conjunct2, rule_format, OF runs]
  have "distinct (map accessToken (User (run mongoose6 emptyStore scenario)))" .
  then have 6: "aliceToken \<noteq> bobToken"
    by (simp add: 3 alice_def bob_def)
  from 1 2 3 4 5 6 show ?thesis by (intro conjI)
qed

section \<open>Emails stay distinct\<close>

text \<open>
  What the sign-in theorem assumes of the store holds in every run from a store whose
  emails are distinct: sign-up refuses a taken email, and no other route writes one.
\<close>

lemma signUp_emails:
  "map email (User (snd (signUp L st b_email b_password salt entropy newId))) = map email (User st) \<or>
   (\<exists>e. e \<notin> set (map email (User st)) \<and>
        map email (User (snd (signUp L st b_email b_password salt entropy newId))) = map email (User st) @ [e])"
  by (auto simp: signUp_def signUp_try_def signUp_catch_def User_save_def Model_findOne_def cast_email
        split: option.splits simp del: cast.simps)

lemma deleteAccount_emails:
  "map email (User (snd (deleteAccount L st authorization userId))) = map email (User st) \<or>
   map email (User (snd (deleteAccount L st authorization userId))) = tl (map email (User st))"
  by (auto simp: deleteAccount_def authenticateUser_eq Model_findOneAndDelete_def cast_user_userId
        deleteFirst_const find_const map_tl split: list.splits simp del: cast.simps)

lemma updateFirst_password_emails:
  "map email (updateFirst P (\<lambda>u. u\<lparr>password := h\<rparr>) us) = map email us"
  by (induction us) simp_all

lemma changePassword_emails:
  "map email (User (snd (changePassword L st authorization userId b_password salt))) =
     map email (User st)"
  by (auto simp: changePassword_def authenticateUser_eq Model_findOne_def Model_findByIdAndUpdate_def
        cast_user_userId cast_user_id updateFirst_password_emails
        split: option.splits simp del: cast.simps)

lemma route_emails:
  "distinct (map email (User st)) \<Longrightarrow> distinct (map email (User (snd (route L st req))))"
proof (cases req)
  case (SignUp b_email b_password salt entropy newId)
  assume "distinct (map email (User st))"
  with SignUp show ?thesis
    using signUp_emails [of L st b_email b_password salt entropy newId] by auto
next
  case (DeleteAccount authorization userId)
  assume "distinct (map email (User st))"
  with DeleteAccount show ?thesis
    using deleteAccount_emails [of L st authorization userId] by (auto simp: distinct_tl)
qed (simp_all add: signIn_users changePassword_emails catalog_users project_users
       getDecorationsByType_def getDrinksByType_def getFoodByType_def getActivitiesByType_def)

lemma run_emails_distinct:
  "distinct (map email (User st)) \<Longrightarrow> distinct (map email (User (run L st reqs)))"
proof (induction reqs arbitrary: st)
  case Nil
  then show ?case by simp
next
  case (Cons req reqs)
  from Cons.prems have "distinct (map email (User (snd (route L st req))))"
    by (rule route_emails)
  then show ?case
    unfolding run_Cons by (rule Cons.IH)
qed

end
